theory Spec2Isabelle
  imports Main
begin

section \<open>Data model\<close>

text \<open>
  The two feed components (\<open>PostFeed\<close> and \<open>MainLayout\<close>) keep a list of posts, a
  loading flag and an error message in React state and talk to a hosted relational
  backend through its client. A JavaScript value that may be \<open>null\<close> or \<open>undefined\<close>
  is an \<open>option\<close>; timestamps are milliseconds since the epoch (the source renders them
  as ISO strings, which preserves their order); characters outside ASCII are written as
  their UTF-8 bytes.
\<close>

type_synonym timestamp = int

record profile =
  prof_id :: string
  username :: "string option"
  full_name :: "string option"
  display_name :: "string option"
  email :: "string option"
  avatar_url :: "string option"
  bio :: "string option"
  website :: "string option"
  location :: "string option"
  prof_created_at :: "timestamp option"
  prof_updated_at :: "timestamp option"

text \<open>A like as the components hold it: the columns \<open>id, user_id\<close>.\<close>

record like =
  like_id :: string
  like_user_id :: string

text \<open>A comment as the components hold it: \<open>id, content, created_at, user_id\<close> and the
  joined author profile.\<close>

record comment =
  c_id :: string
  c_content :: string
  c_created_at :: timestamp
  c_user_id :: string
  c_profiles :: "profile option"

text \<open>The derived object \<open>_count\<close>; a field of a JavaScript object can be absent.\<close>

record counts =
  n_likes :: "int option"
  n_comments :: "int option"

text \<open>A post as held in component state: the columns of the row, then the fields added
  at read time (\<open>profiles\<close>, \<open>likes\<close>, \<open>comments\<close>, \<open>_count\<close>).\<close>

record post =
  post_id :: string
  user_id :: string
  content :: string
  images :: "string list option"
  files :: "string list option"
  visibility :: "string option"
  community_id :: "string option"
  is_anonymous :: "bool option"
  created_at :: timestamp
  updated_at :: timestamp
  profiles :: "profile option"
  likes :: "like list option"
  comments :: "comment list option"
  post_count :: "counts option"

subsection \<open>The backend\<close>

record like_row =
  lr_id :: string
  lr_user_id :: string
  lr_post_id :: string

record comment_row =
  cr_id :: string
  cr_post_id :: string
  cr_user_id :: string
  cr_content :: string
  cr_created_at :: timestamp

text \<open>The tables the two components read and write. \<open>PostFeed\<close> uses \<open>likes\<close> and
  \<open>comments\<close>, \<open>MainLayout\<close> uses \<open>post_likes\<close> and \<open>post_comments\<close>. A row of \<open>posts\<close>
  carries no read-time field.\<close>

record database =
  tbl_posts :: "post list"
  tbl_profiles :: "profile list"
  tbl_likes :: "like_row list"
  tbl_comments :: "comment_row list"
  tbl_post_likes :: "like_row list"
  tbl_post_comments :: "comment_row list"

text \<open>The three filters \<open>PostFeed\<close> puts on the posts query.\<close>

datatype pfilter = EqVisibility string | CommunityIsNull | EqCommunity string

datatype call =
    SelectPosts "pfilter list"
  | SelectProfile string
  | SelectLikes string
  | SelectComments string
  | SelectPostsJoined bool
  | InsertLike string string
  | DeleteLike string
  | InsertComment string string string
  | InsertPostLike string string
  | DeletePostLike string
  | InsertPostComment string string string

text \<open>What a rejected promise carries: an \<open>Error\<close> with its message, or any other value.\<close>

datatype thrown = ErrorObject string | OtherValue

text \<open>A backend call can reject, or resolve with \<open>{data: null, error}\<close>.\<close>

datatype fault = Throws thrown | Fails string

text \<open>The awaited value of a call: rejected, or resolved to \<open>{data, error}\<close> (the error by
  its message).\<close>

datatype 'a reply = Rejected thrown | Resolved "'a option" "string option"

text \<open>What the components do not control: whether the backend is configured
  (\<open>hasValidSupabaseConfig()\<close>), which calls fail, the identifier the backend gives an
  inserted row, the clock (\<open>Date.now()\<close>), and the time at which the module of
  \<open>PostFeed\<close> was evaluated (its demo data are module constants).\<close>

record env =
  configured :: bool
  fault :: "call \<Rightarrow> fault option"
  gen_id :: "database \<Rightarrow> string"
  clock :: timestamp
  loaded_at :: timestamp

datatype log_entry =
    PostsQueryError string
  | ErrorLoadingPosts thrown
  | ErrorLoadingPostsQuery string
  | ErrorInLoadPosts thrown
  | ErrorTogglingLike thrown
  | ErrorAddingComment thrown

text \<open>The state of one component together with the world around it: the React state
  (\<open>posts\<close>, \<open>loading\<close>, \<open>error\<close>), the backend tables, the backend calls made so far, the
  \<open>console.error\<close> lines and the \<open>alert\<close> boxes shown.\<close>

record world =
  posts :: "post list"
  loading :: bool
  error :: "string option"
  db :: database
  trace :: "call list"
  console_errors :: "log_entry list"
  alerts :: "string list"

subsection \<open>JavaScript operators\<close>

text \<open>\<open>!s\<close> on a string that may be undefined.\<close>

definition falsy :: "string option \<Rightarrow> bool" where
  "falsy s = (case s of None \<Rightarrow> True | Some v \<Rightarrow> v = [])"

text \<open>\<open>a || b\<close> on strings.\<close>

definition str_or :: "string option \<Rightarrow> string \<Rightarrow> string" where
  "str_or a b = (case a of None \<Rightarrow> b | Some v \<Rightarrow> if v = [] then b else v)"

text \<open>\<open>n || 0\<close> on a number that may be undefined.\<close>

definition or0 :: "int option \<Rightarrow> int" where
  "or0 n = (case n of None \<Rightarrow> 0 | Some k \<Rightarrow> if k = 0 then 0 else k)"

text \<open>\<open>xs?.length || 0\<close>.\<close>

definition length_or0 :: "'a list option \<Rightarrow> int" where
  "length_or0 xs = or0 (map_option (\<lambda>l. int (length l)) xs)"

text \<open>\<open>error instanceof Error ? error.message : 'Unknown error'\<close>.\<close>

fun thrown_message :: "thrown \<Rightarrow> string" where
  "thrown_message (ErrorObject m) = m"
| "thrown_message OtherValue = ''Unknown error''"

subsection \<open>Backend queries\<close>

fun holds :: "pfilter \<Rightarrow> post \<Rightarrow> bool" where
  "holds (EqVisibility v) p = (visibility p = Some v)"
| "holds CommunityIsNull p = (community_id p = None)"
| "holds (EqCommunity c) p = (community_id p = Some c)"

text \<open>A row is selected when it passes every filter of the query.\<close>

definition matches :: "pfilter list \<Rightarrow> post \<Rightarrow> bool" where
  "matches fs p = list_all (\<lambda>f. holds f p) fs"

definition respond :: "env \<Rightarrow> call \<Rightarrow> 'a reply \<Rightarrow> 'a reply" where
  "respond e c r =
     (case fault e c of
        None \<Rightarrow> r
      | Some (Throws t) \<Rightarrow> Rejected t
      | Some (Fails m) \<Rightarrow> Resolved None (Some m))"

text \<open>\<open>from('posts').select('*') ... .order('created_at', {ascending: false})\<close>\<close>

definition select_posts :: "env \<Rightarrow> database \<Rightarrow> pfilter list \<Rightarrow> post list reply" where
  "select_posts e d fs =
     respond e (SelectPosts fs)
       (Resolved
          (Some (sort_key (\<lambda>p. - created_at p)
                   (filter (matches fs) (tbl_posts d))))
          None)"

text \<open>The columns \<open>id, username, full_name, avatar_url\<close> of a profile.\<close>

definition feed_columns :: "profile \<Rightarrow> profile" where
  "feed_columns p =
     \<lparr>prof_id = prof_id p, username = username p, full_name = full_name p,
      display_name = None, email = None, avatar_url = avatar_url p, bio = None,
      website = None, location = None, prof_created_at = None, prof_updated_at = None\<rparr>"

text \<open>\<open>from('profiles').select(...).eq('id', uid).single()\<close>: the row when exactly one
  matches, otherwise no data and an error.\<close>

definition select_profile :: "env \<Rightarrow> database \<Rightarrow> string \<Rightarrow> profile reply" where
  "select_profile e d uid =
     respond e (SelectProfile uid)
       (case filter (\<lambda>p. prof_id p = uid) (tbl_profiles d) of
          [p] \<Rightarrow> Resolved (Some (feed_columns p)) None
        | _ \<Rightarrow> Resolved None (Some ''JSON object requested, multiple (or no) rows returned''))"

definition like_columns :: "like_row \<Rightarrow> like" where
  "like_columns r = \<lparr>like_id = lr_id r, like_user_id = lr_user_id r\<rparr>"

text \<open>\<open>from('likes').select('id, user_id').eq('post_id', pid)\<close>\<close>

definition select_likes :: "env \<Rightarrow> database \<Rightarrow> string \<Rightarrow> like list reply" where
  "select_likes e d pid =
     respond e (SelectLikes pid)
       (Resolved (Some (map like_columns (filter (\<lambda>r. lr_post_id r = pid) (tbl_likes d)))) None)"

definition comment_columns :: "comment_row \<Rightarrow> comment" where
  "comment_columns r =
     \<lparr>c_id = cr_id r, c_content = cr_content r, c_created_at = cr_created_at r,
      c_user_id = cr_user_id r, c_profiles = None\<rparr>"

text \<open>\<open>from('comments').select(...).eq('post_id', pid).order('created_at', {ascending: true})\<close>\<close>

definition select_comments :: "env \<Rightarrow> database \<Rightarrow> string \<Rightarrow> comment list reply" where
  "select_comments e d pid =
     respond e (SelectComments pid)
       (Resolved
          (Some (map comment_columns
                   (sort_key cr_created_at (filter (\<lambda>r. cr_post_id r = pid) (tbl_comments d)))))
          None)"

section \<open>PostFeed\<close>

subsection \<open>Demo data\<close>

definition demoPostsData :: "timestamp \<Rightarrow> post list" where
  "demoPostsData t0 =
     [\<lparr>post_id = ''1'',
       user_id = ''demo-user-123'',
       content = ''Welcome to our social platform! '' @ [CHR 0xF0, CHR 0x9F, CHR 0x8E, CHR 0x89]
         @ '' This is a demo post to show how the feed works. Feel free to interact with it!'',
       images = Some [''https://images.pexels.com/photos/1591056/pexels-photo-1591056.jpeg?auto=compress&cs=tinysrgb&w=800''],
       files = Some [],
       visibility = Some ''public'',
       community_id = None,
       is_anonymous = None,
       created_at = t0 - 1000 * 60 * 30,
       updated_at = t0 - 1000 * 60 * 30,
       profiles = Some
         \<lparr>prof_id = ''demo-user-123'', username = Some ''demouser'',
          full_name = Some ''Demo User'', display_name = None,
          email = Some ''demo@example.com'', avatar_url = None, bio = None, website = None,
          location = None, prof_created_at = Some t0, prof_updated_at = Some t0\<rparr>,
       likes = Some [],
       comments = Some [],
       post_count = Some \<lparr>n_likes = Some 5, n_comments = Some 2\<rparr>\<rparr>]"

definition demoAnonymousPostsData :: "timestamp \<Rightarrow> post list" where
  "demoAnonymousPostsData t0 =
     [\<lparr>post_id = ''2'',
       user_id = ''demo-user-456'',
       content = ''This is an anonymous post. You can share your thoughts freely without revealing your identity. Perfect for sensitive topics or when you want complete privacy.'',
       images = None,
       files = None,
       visibility = Some ''anonymous'',
       community_id = None,
       is_anonymous = None,
       created_at = t0 - 1000 * 60 * 45,
       updated_at = t0 - 1000 * 60 * 45,
       profiles = None,
       likes = Some [],
       comments = Some [],
       post_count = Some \<lparr>n_likes = Some 3, n_comments = Some 1\<rparr>\<rparr>]"

subsection \<open>loadPosts\<close>

text \<open>The filters chosen from the section: \<open>section === 'public' || !section\<close>, then
  \<open>section === 'anonymous'\<close>, then any other value as a community identifier. An undefined
  section is falsy, so it takes the first branch.\<close>

definition section_filters :: "string option \<Rightarrow> pfilter list" where
  "section_filters section =
     (case section of
        None \<Rightarrow> [EqVisibility ''public'', CommunityIsNull]
      | Some s \<Rightarrow>
          if s = ''public'' \<or> falsy section then [EqVisibility ''public'', CommunityIsNull]
          else if s = ''anonymous'' then [EqVisibility ''anonymous'', CommunityIsNull]
          else [EqCommunity s])"

text \<open>The inner loop over the comments of one post. Every function of the load returns
  its value, or the rejection that ended it, together with the backend calls it made.\<close>

fun comment_profiles ::
  "env \<Rightarrow> database \<Rightarrow> string option \<Rightarrow> comment list \<Rightarrow> comment list
     \<Rightarrow> (thrown + comment list) \<times> call list" where
  "comment_profiles e d section [] acc = (Inr acc, [])"
| "comment_profiles e d section (c # cs) acc =
     (if section \<noteq> Some ''anonymous'' then
        (case select_profile e d (c_user_id c) of
           Rejected t \<Rightarrow> (Inl t, [SelectProfile (c_user_id c)])
         | Resolved commentProfileData _ \<Rightarrow>
             (case comment_profiles e d section cs (acc @ [c\<lparr>c_profiles := commentProfileData\<rparr>]) of
                (r, tr) \<Rightarrow> (r, SelectProfile (c_user_id c) # tr)))
      else comment_profiles e d section cs (acc @ [c\<lparr>c_profiles := None\<rparr>]))"

text \<open>The body of the outer loop: the profile (unless the section is anonymous), the
  likes, the comments and their profiles, then the assembled post.\<close>

definition load_profile ::
  "env \<Rightarrow> database \<Rightarrow> string option \<Rightarrow> post \<Rightarrow> (thrown + profile option) \<times> call list" where
  "load_profile e d section p =
     (if section \<noteq> Some ''anonymous'' then
        (case select_profile e d (user_id p) of
           Rejected t \<Rightarrow> (Inl t, [SelectProfile (user_id p)])
         | Resolved profileData _ \<Rightarrow> (Inr profileData, [SelectProfile (user_id p)]))
      else (Inr None, []))"

definition assemble ::
  "string option \<Rightarrow> post \<Rightarrow> profile option \<Rightarrow> like list option \<Rightarrow> comment list \<Rightarrow> post" where
  "assemble section p profile ls commentsWithProfiles =
     p\<lparr>visibility := Some (str_or (visibility p) (str_or section ''public'')),
       profiles := profile,
       likes := Some (case ls of None \<Rightarrow> [] | Some l \<Rightarrow> l),
       comments := Some commentsWithProfiles,
       post_count := Some
         \<lparr>n_likes = Some (length_or0 ls),
          n_comments = Some (or0 (Some (int (length commentsWithProfiles))))\<rparr>\<rparr>"

definition process_post ::
  "env \<Rightarrow> database \<Rightarrow> string option \<Rightarrow> post \<Rightarrow> (thrown + post) \<times> call list" where
  "process_post e d section p =
     (case load_profile e d section p of
        (Inl t, tr1) \<Rightarrow> (Inl t, tr1)
      | (Inr profile, tr1) \<Rightarrow>
          (case select_likes e d (post_id p) of
             Rejected t \<Rightarrow> (Inl t, tr1 @ [SelectLikes (post_id p)])
           | Resolved ls _ \<Rightarrow>
               (case select_comments e d (post_id p) of
                  Rejected t \<Rightarrow> (Inl t, tr1 @ [SelectLikes (post_id p), SelectComments (post_id p)])
                | Resolved cs _ \<Rightarrow>
                    (case (case cs of
                             None \<Rightarrow> (Inr [], [])
                           | Some cl \<Rightarrow> comment_profiles e d section cl []) of
                       (Inl t, tr2) \<Rightarrow>
                         (Inl t, tr1 @ [SelectLikes (post_id p), SelectComments (post_id p)] @ tr2)
                     | (Inr commentsWithProfiles, tr2) \<Rightarrow>
                         (Inr (assemble section p profile ls commentsWithProfiles),
                          tr1 @ [SelectLikes (post_id p), SelectComments (post_id p)] @ tr2)))))"

text \<open>The outer loop \<open>for (const post of simplePosts)\<close>, pushing onto
  \<open>postsWithProfiles\<close>.\<close>

fun process_posts ::
  "env \<Rightarrow> database \<Rightarrow> string option \<Rightarrow> post list \<Rightarrow> post list
     \<Rightarrow> (thrown + post list) \<times> call list" where
  "process_posts e d section [] acc = (Inr acc, [])"
| "process_posts e d section (p # ps) acc =
     (case process_post e d section p of
        (Inl t, tr) \<Rightarrow> (Inl t, tr)
      | (Inr q, tr) \<Rightarrow>
          (case process_posts e d section ps (acc @ [q]) of
             (r, tr') \<Rightarrow> (r, tr @ tr')))"

text \<open>The \<open>try\<close> block of \<open>loadPosts\<close>: the world it leaves, and the value thrown if it
  ended by a rejection.\<close>

definition PostFeed_loadPosts_try :: "env \<Rightarrow> string option \<Rightarrow> world \<Rightarrow> thrown option \<times> world" where
  "PostFeed_loadPosts_try e section w0 =
     (let w = w0\<lparr>loading := True, error := None\<rparr> in
      if \<not> configured e then
        (None,
         (if section = Some ''public'' \<or> falsy section then w\<lparr>posts := demoPostsData (loaded_at e)\<rparr>
          else if section = Some ''anonymous'' then w\<lparr>posts := demoAnonymousPostsData (loaded_at e)\<rparr>
          else w\<lparr>posts := []\<rparr>)\<lparr>loading := False\<rparr>)
      else
        (let w1 = w\<lparr>trace := trace w @ [SelectPosts (section_filters section)]\<rparr> in
         case select_posts e (db w) (section_filters section) of
           Rejected t \<Rightarrow> (Some t, w1)
         | Resolved simplePosts postsError \<Rightarrow>
             (case postsError of
                Some m \<Rightarrow>
                  (None,
                   w1\<lparr>console_errors := console_errors w1 @ [PostsQueryError m],
                      error := Some (''Database error: '' @ m),
                      loading := False\<rparr>)
              | None \<Rightarrow>
                  (case simplePosts of
                     None \<Rightarrow> (None, w1\<lparr>posts := [], loading := False\<rparr>)
                   | Some [] \<Rightarrow> (None, w1\<lparr>posts := [], loading := False\<rparr>)
                   | Some (p # ps) \<Rightarrow>
                       (case process_posts e (db w) section (p # ps) [] of
                          (Inl t, tr) \<Rightarrow> (Some t, w1\<lparr>trace := trace w1 @ tr\<rparr>)
                        | (Inr postsWithProfiles, tr) \<Rightarrow>
                            (None, w1\<lparr>trace := trace w1 @ tr, posts := postsWithProfiles\<rparr>))))))"

text \<open>\<open>loadPosts\<close> with its \<open>catch\<close> and \<open>finally\<close>.\<close>

definition PostFeed_loadPosts :: "env \<Rightarrow> string option \<Rightarrow> world \<Rightarrow> world" where
  "PostFeed_loadPosts e section w0 =
     (case PostFeed_loadPosts_try e section w0 of
        (Some t, w) \<Rightarrow>
          w\<lparr>console_errors := console_errors w @ [ErrorLoadingPosts t],
            error := Some (''Failed to load posts: '' @ thrown_message t),
            loading := False\<rparr>
      | (None, w) \<Rightarrow> w\<lparr>loading := False\<rparr>)"

subsection \<open>handleLike and handleComment\<close>

text \<open>The callback of \<open>prevPosts.map\<close> in demo mode.\<close>

definition toggle_demo :: "string \<Rightarrow> string \<Rightarrow> post \<Rightarrow> post" where
  "toggle_demo uid postId p =
     (if post_id p = postId then
        (let isLiked = (case likes p of None \<Rightarrow> False
                        | Some ls \<Rightarrow> list_ex (\<lambda>l. like_user_id l = uid) ls);
             old = or0 (case post_count p of None \<Rightarrow> None | Some c \<Rightarrow> n_likes c);
             newLikesCount = (if isLiked then old - 1 else old + 1)
         in p\<lparr>post_count := Some
                ((case post_count p of
                    None \<Rightarrow> \<lparr>n_likes = None, n_comments = None\<rparr>
                  | Some c \<Rightarrow> c)\<lparr>n_likes := Some newLikesCount\<rparr>)\<rparr>)
      else p)"

text \<open>\<open>posts.find(p => p.id === postId)?.likes?.find(l => l.user_id === currentUser.id)\<close>\<close>

definition existingLike :: "post list \<Rightarrow> string \<Rightarrow> string \<Rightarrow> like option" where
  "existingLike ps postId uid =
     (case find (\<lambda>p. post_id p = postId) ps of
        None \<Rightarrow> None
      | Some p \<Rightarrow>
          (case likes p of
             None \<Rightarrow> None
           | Some ls \<Rightarrow> find (\<lambda>l. like_user_id l = uid) ls))"

text \<open>A write: it takes effect unless the call fails.\<close>

definition mutate :: "env \<Rightarrow> call \<Rightarrow> database \<Rightarrow> database \<Rightarrow> unit reply \<times> database" where
  "mutate e c d d' =
     (case fault e c of
        None \<Rightarrow> (Resolved None None, d')
      | Some (Throws t) \<Rightarrow> (Rejected t, d)
      | Some (Fails m) \<Rightarrow> (Resolved None (Some m), d))"

definition delete_by_id :: "string \<Rightarrow> like_row list \<Rightarrow> like_row list" where
  "delete_by_id i rows = filter (\<lambda>r. lr_id r \<noteq> i) rows"

definition insert_like_row :: "env \<Rightarrow> database \<Rightarrow> string \<Rightarrow> string \<Rightarrow> like_row list \<Rightarrow> like_row list" where
  "insert_like_row e d uid postId rows =
     rows @ [\<lparr>lr_id = gen_id e d, lr_user_id = uid, lr_post_id = postId\<rparr>]"


text \<open>A handler returns the value it throws to its caller, if any, and the world it
  leaves. \<open>loadPosts()\<close> is called without \<open>await\<close>; the model runs it to its end before
  the next event.\<close>

definition PostFeed_handleLike ::
  "env \<Rightarrow> profile \<Rightarrow> string option \<Rightarrow> string \<Rightarrow> world \<Rightarrow> thrown option \<times> world" where
  "PostFeed_handleLike e currentUser section postId w =
     (if \<not> configured e then
        (None, w\<lparr>posts := map (toggle_demo (prof_id currentUser) postId) (posts w)\<rparr>)
      else
        (case (case existingLike (posts w) postId (prof_id currentUser) of
                 Some l \<Rightarrow>
                   (DeleteLike (like_id l),
                    (db w)\<lparr>tbl_likes := delete_by_id (like_id l) (tbl_likes (db w))\<rparr>)
               | None \<Rightarrow>
                   (InsertLike (prof_id currentUser) postId,
                    (db w)\<lparr>tbl_likes :=
                      insert_like_row e (db w) (prof_id currentUser) postId (tbl_likes (db w))\<rparr>)) of
           (c, d') \<Rightarrow>
             (case mutate e c (db w) d' of
                (Rejected t, d'') \<Rightarrow>
                  (None,
                   w\<lparr>db := d'', trace := trace w @ [c],
                     console_errors := console_errors w @ [ErrorTogglingLike t]\<rparr>)
              | (Resolved _ _, d'') \<Rightarrow>
                  (None, PostFeed_loadPosts e section (w\<lparr>db := d'', trace := trace w @ [c]\<rparr>)))))"


section \<open>MainLayout\<close>

subsection \<open>loadPosts\<close>

definition demoPosts :: "profile \<Rightarrow> string \<Rightarrow> timestamp \<Rightarrow> post list" where
  "demoPosts profile currentSection now =
     [\<lparr>post_id = ''1'',
       user_id = prof_id profile,
       content = ''Welcome to TepiTingkap! This is a demo post to show how the platform works. You can share your thoughts, images, and connect with others in the community.'',
       images = Some [''https://images.pexels.com/photos/1591056/pexels-photo-1591056.jpeg?auto=compress&cs=tinysrgb&w=800''],
       files = None,
       visibility = None,
       community_id = None,
       is_anonymous = Some (currentSection = ''anonymous''),
       created_at = now - 1000 * 60 * 30,
       updated_at = now - 1000 * 60 * 30,
       profiles = Some profile,
       likes = Some [],
       comments = Some [],
       post_count = Some \<lparr>n_likes = Some 5, n_comments = Some 2\<rparr>\<rparr>,
      \<lparr>post_id = ''2'',
       user_id = ''demo-user-2'',
       content = ''Beautiful sunset today! '' @ [CHR 0xF0, CHR 0x9F, CHR 0x8C, CHR 0x85]
         @ '' Sometimes we need to pause and appreciate the simple moments in life.'',
       images = Some [''https://images.pexels.com/photos/1181677/pexels-photo-1181677.jpeg?auto=compress&cs=tinysrgb&w=800''],
       files = None,
       visibility = None,
       community_id = None,
       is_anonymous = Some (currentSection = ''anonymous''),
       created_at = now - 1000 * 60 * 60 * 2,
       updated_at = now - 1000 * 60 * 60 * 2,
       profiles = Some
         \<lparr>prof_id = ''demo-user-2'', username = None,
          full_name = (if currentSection = ''anonymous'' then None else Some ''Nature Lover''),
          display_name = (if currentSection = ''anonymous'' then None else Some ''naturelover''),
          email = Some ''nature@example.com'', avatar_url = None, bio = None, website = None,
          location = None, prof_created_at = Some now, prof_updated_at = Some now\<rparr>,
       likes = Some [],
       comments = Some [],
       post_count = Some \<lparr>n_likes = Some 12, n_comments = Some 4\<rparr>\<rparr>,
      \<lparr>post_id = ''3'',
       user_id = ''demo-user-3'',
       content =
         (if currentSection = ''anonymous''
          then ''Sharing this anonymously - sometimes it'' @ [CHR 0x27] @ ''s easier to express thoughts without revealing identity. What do you think about anonymous social sharing?''
          else ''Just finished reading an amazing book! '' @ [CHR 0xF0, CHR 0x9F, CHR 0x93, CHR 0x9A]
            @ '' '' @ [CHR 0x22] @ ''The Power of Now'' @ [CHR 0x22] @ '' really changed my perspective on mindfulness and living in the present moment.''),
       images =
         (if currentSection = ''anonymous'' then Some []
          else Some [''https://images.pexels.com/photos/1261728/pexels-photo-1261728.jpeg?auto=compress&cs=tinysrgb&w=800'']),
       files = None,
       visibility = None,
       community_id = None,
       is_anonymous = Some (currentSection = ''anonymous''),
       created_at = now - 1000 * 60 * 60 * 4,
       updated_at = now - 1000 * 60 * 60 * 4,
       profiles = Some
         \<lparr>prof_id = ''demo-user-3'', username = None,
          full_name = (if currentSection = ''anonymous'' then None else Some ''Book Reader''),
          display_name = (if currentSection = ''anonymous'' then None else Some ''booklover''),
          email = Some ''books@example.com'', avatar_url = None, bio = None, website = None,
          location = None, prof_created_at = Some now, prof_updated_at = Some now\<rparr>,
       likes = Some [],
       comments = Some [],
       post_count = Some \<lparr>n_likes = Some 8, n_comments = Some 6\<rparr>\<rparr>]"

text \<open>The columns \<open>id, display_name, full_name, avatar_url\<close> of an embedded profile.\<close>

definition joined_columns :: "profile \<Rightarrow> profile" where
  "joined_columns p =
     \<lparr>prof_id = prof_id p, username = None, full_name = full_name p,
      display_name = display_name p, email = None, avatar_url = avatar_url p, bio = None,
      website = None, location = None, prof_created_at = None, prof_updated_at = None\<rparr>"

definition join_profile :: "database \<Rightarrow> string \<Rightarrow> profile option" where
  "join_profile d uid = map_option joined_columns (find (\<lambda>p. prof_id p = uid) (tbl_profiles d))"

text \<open>One row of the single query of \<open>MainLayout\<close>, which embeds the author profile, the
  rows of \<open>post_likes\<close> and the rows of \<open>post_comments\<close> with their author profiles.\<close>

definition joined_row :: "database \<Rightarrow> post \<Rightarrow> post" where
  "joined_row d p =
     p\<lparr>profiles := join_profile d (user_id p),
       likes := Some (map like_columns (filter (\<lambda>r. lr_post_id r = post_id p) (tbl_post_likes d))),
       comments := Some
         (map (\<lambda>r. (comment_columns r)\<lparr>c_profiles := join_profile d (cr_user_id r)\<rparr>)
            (filter (\<lambda>r. cr_post_id r = post_id p) (tbl_post_comments d))),
       post_count := None\<rparr>"

text \<open>\<open>from('posts').select(...).eq('is_anonymous', anon).order('created_at', {ascending: false})\<close>\<close>

definition select_posts_joined :: "env \<Rightarrow> database \<Rightarrow> bool \<Rightarrow> post list reply" where
  "select_posts_joined e d anon =
     respond e (SelectPostsJoined anon)
       (Resolved
          (Some (map (joined_row d)
                   (sort_key (\<lambda>p. - created_at p)
                      (filter (\<lambda>p. is_anonymous p = Some anon) (tbl_posts d)))))
          None)"

text \<open>The callback of \<open>(data || []).map\<close>.\<close>

definition with_counts :: "post \<Rightarrow> post" where
  "with_counts p =
     p\<lparr>post_count := Some
         \<lparr>n_likes = Some (length_or0 (likes p)), n_comments = Some (length_or0 (comments p))\<rparr>\<rparr>"

definition MainLayout_loadPosts_try :: "env \<Rightarrow> profile \<Rightarrow> string \<Rightarrow> world \<Rightarrow> thrown option \<times> world" where
  "MainLayout_loadPosts_try e profile currentSection w0 =
     (let w = w0\<lparr>loading := True, error := None\<rparr> in
      if \<not> configured e then
        (None, w\<lparr>posts := demoPosts profile currentSection (clock e), loading := False\<rparr>)
      else
        (let w1 = w\<lparr>trace := trace w @ [SelectPostsJoined (currentSection = ''anonymous'')]\<rparr> in
         case select_posts_joined e (db w) (currentSection = ''anonymous'') of
           Rejected t \<Rightarrow> (Some t, w1)
         | Resolved data err \<Rightarrow>
             (case err of
                Some m \<Rightarrow>
                  (None,
                   w1\<lparr>console_errors := console_errors w1 @ [ErrorLoadingPostsQuery m],
                      error := Some (''Failed to load posts: '' @ m)\<rparr>)
              | None \<Rightarrow>
                  (None, w1\<lparr>posts := map with_counts (case data of None \<Rightarrow> [] | Some ps \<Rightarrow> ps)\<rparr>))))"

definition MainLayout_loadPosts :: "env \<Rightarrow> profile \<Rightarrow> string \<Rightarrow> world \<Rightarrow> world" where
  "MainLayout_loadPosts e profile currentSection w0 =
     (case MainLayout_loadPosts_try e profile currentSection w0 of
        (Some t, w) \<Rightarrow>
          w\<lparr>console_errors := console_errors w @ [ErrorInLoadPosts t],
            error := Some (''Failed to load posts: '' @ thrown_message t),
            loading := False\<rparr>
      | (None, w) \<Rightarrow> w\<lparr>loading := False\<rparr>)"

subsection \<open>handleLike and handleComment\<close>

definition MainLayout_handleLike ::
  "env \<Rightarrow> profile \<Rightarrow> string \<Rightarrow> string \<Rightarrow> world \<Rightarrow> thrown option \<times> world" where
  "MainLayout_handleLike e profile currentSection postId w =
     (if \<not> configured e then
        (None, w\<lparr>posts := map (toggle_demo (prof_id profile) postId) (posts w)\<rparr>)
      else
        (case (case existingLike (posts w) postId (prof_id profile) of
                 Some l \<Rightarrow>
                   (DeletePostLike (like_id l),
                    (db w)\<lparr>tbl_post_likes := delete_by_id (like_id l) (tbl_post_likes (db w))\<rparr>)
               | None \<Rightarrow>
                   (InsertPostLike (prof_id profile) postId,
                    (db w)\<lparr>tbl_post_likes :=
                      insert_like_row e (db w) (prof_id profile) postId (tbl_post_likes (db w))\<rparr>)) of
           (c, d') \<Rightarrow>
             (case mutate e c (db w) d' of
                (Rejected t, d'') \<Rightarrow>
                  (None,
                   w\<lparr>db := d'', trace := trace w @ [c],
                     console_errors := console_errors w @ [ErrorTogglingLike t]\<rparr>)
              | (Resolved _ _, d'') \<Rightarrow>
                  (None,
                   MainLayout_loadPosts e profile currentSection
                     (w\<lparr>db := d'', trace := trace w @ [c]\<rparr>)))))"


section \<open>Properties and sample inputs\<close>

text \<open>The initial React state of either component (\<open>useState([])\<close>, \<open>useState(true)\<close>,
  \<open>useState(null)\<close>) over a given backend.\<close>

definition initial_world :: "database \<Rightarrow> world" where
  "initial_world d =
     \<lparr>posts = [], loading = True, error = None, db = d, trace = [], console_errors = [],
      alerts = []\<rparr>"

text \<open>\<open>_count\<close> agrees with the lists held beside it; an absent list counts as empty.\<close>

definition counts_ok :: "post \<Rightarrow> bool" where
  "counts_ok p =
     (post_count p =
        Some \<lparr>n_likes = Some (int (length (case likes p of None \<Rightarrow> [] | Some l \<Rightarrow> l))),
              n_comments = Some (int (length (case comments p of None \<Rightarrow> [] | Some l \<Rightarrow> l)))\<rparr>)"

text \<open>Neither the post nor any of its comments carries an author profile.\<close>

definition author_hidden :: "post \<Rightarrow> bool" where
  "author_hidden p =
     (profiles p = None \<and>
      list_all (\<lambda>c. c_profiles c = None) (case comments p of None \<Rightarrow> [] | Some l \<Rightarrow> l))"

text \<open>What identifies an item of the feed and what it counts.\<close>

definition identity_and_counts :: "post \<Rightarrow> string \<times> counts option" where
  "identity_and_counts p = (post_id p, post_count p)"

text \<open>Membership of a (user, post) pair in a likes table.\<close>

definition liked :: "like_row list \<Rightarrow> string \<Rightarrow> string \<Rightarrow> bool" where
  "liked rows uid pid = list_ex (\<lambda>r. lr_user_id r = uid \<and> lr_post_id r = pid) rows"

text \<open>The likes of a post as a query returns them from a likes table.\<close>

definition likes_of :: "like_row list \<Rightarrow> string \<Rightarrow> like list" where
  "likes_of rows pid = map like_columns (filter (\<lambda>r. lr_post_id r = pid) rows)"

text \<open>The number of rows a likes table holds for a (user, post) pair.\<close>

definition like_rows :: "like_row list \<Rightarrow> string \<Rightarrow> string \<Rightarrow> nat" where
  "like_rows rows uid pid = length (filter (\<lambda>r. lr_user_id r = uid \<and> lr_post_id r = pid) rows)"

text \<open>The like lists held locally are those of the likes table.\<close>

definition likes_in_sync :: "like_row list \<Rightarrow> post list \<Rightarrow> bool" where
  "likes_in_sync rows ps = list_all (\<lambda>q. likes q = Some (likes_of rows (post_id q))) ps"

text \<open>The likes table after the write of \<open>handleLike\<close> took effect.\<close>

definition toggled_rows ::
  "env \<Rightarrow> database \<Rightarrow> post list \<Rightarrow> string \<Rightarrow> string \<Rightarrow> like_row list \<Rightarrow> like_row list" where
  "toggled_rows e d ps uid pid rows =
     (case existingLike ps pid uid of
        Some l \<Rightarrow> delete_by_id (like_id l) rows
      | None \<Rightarrow> insert_like_row e d uid pid rows)"

text \<open>The calls that write.\<close>

fun is_write :: "call \<Rightarrow> bool" where
  "is_write (InsertLike _ _) = True"
| "is_write (DeleteLike _) = True"
| "is_write (InsertComment _ _ _) = True"
| "is_write (InsertPostLike _ _) = True"
| "is_write (DeletePostLike _) = True"
| "is_write (InsertPostComment _ _ _) = True"
| "is_write _ = False"

text \<open>What a load does to the posts list, read off the backend alone: the list it stores,
  or nothing when it fails and leaves the list as it is.\<close>

definition PostFeed_outcome :: "env \<Rightarrow> string option \<Rightarrow> database \<Rightarrow> post list option" where
  "PostFeed_outcome e section d =
     (if \<not> configured e then
        Some (if section = Some ''public'' \<or> falsy section then demoPostsData (loaded_at e)
              else if section = Some ''anonymous'' then demoAnonymousPostsData (loaded_at e)
              else [])
      else
        (case select_posts e d (section_filters section) of
           Rejected t \<Rightarrow> None
         | Resolved simplePosts postsError \<Rightarrow>
             (case postsError of
                Some m \<Rightarrow> None
              | None \<Rightarrow>
                  (case simplePosts of
                     None \<Rightarrow> Some []
                   | Some ps \<Rightarrow>
                       (case fst (process_posts e d section ps []) of
                          Inl t \<Rightarrow> None
                        | Inr qs \<Rightarrow> Some qs)))))"

definition MainLayout_outcome :: "env \<Rightarrow> profile \<Rightarrow> string \<Rightarrow> database \<Rightarrow> post list option" where
  "MainLayout_outcome e profile currentSection d =
     (if \<not> configured e then Some (demoPosts profile currentSection (clock e))
      else
        (case select_posts_joined e d (currentSection = ''anonymous'') of
           Rejected t \<Rightarrow> None
         | Resolved data err \<Rightarrow>
             (case err of
                Some m \<Rightarrow> None
              | None \<Rightarrow> Some (map with_counts (case data of None \<Rightarrow> [] | Some ps \<Rightarrow> ps)))))"

text \<open>The write \<open>handleLike\<close> issues in backend mode: a delete of the like found in local
  state, otherwise an insert.\<close>

definition PostFeed_like_call :: "post list \<Rightarrow> string \<Rightarrow> string \<Rightarrow> call" where
  "PostFeed_like_call ps uid pid =
     (case existingLike ps pid uid of
        Some l \<Rightarrow> DeleteLike (like_id l)
      | None \<Rightarrow> InsertLike uid pid)"

definition MainLayout_like_call :: "post list \<Rightarrow> string \<Rightarrow> string \<Rightarrow> call" where
  "MainLayout_like_call ps uid pid =
     (case existingLike ps pid uid of
        Some l \<Rightarrow> DeletePostLike (like_id l)
      | None \<Rightarrow> InsertPostLike uid pid)"

text \<open>The demo-mode toggle as the specification words it: only \<open>_count.likes\<close> moves, by
  \<open>-1\<close> when the user's identity is in the cached like list and by \<open>+1\<close> otherwise.\<close>

definition likes_count_adjusted :: "string \<Rightarrow> post \<Rightarrow> post" where
  "likes_count_adjusted uid p =
     p\<lparr>post_count := Some
         ((case post_count p of None \<Rightarrow> \<lparr>n_likes = None, n_comments = None\<rparr> | Some c \<Rightarrow> c)
            \<lparr>n_likes := Some
               (or0 (case post_count p of None \<Rightarrow> None | Some c \<Rightarrow> n_likes c)
                + (if uid \<in> like_user_id ` set (case likes p of None \<Rightarrow> [] | Some ls \<Rightarrow> ls)
                   then - 1 else 1))\<rparr>)\<rparr>"

definition demo_env :: env where
  "demo_env =
     \<lparr>configured = False, fault = (\<lambda>c. None), gen_id = (\<lambda>d. ''like-new''), clock = 5000000,
      loaded_at = 4000000\<rparr>"

definition live_env :: env where
  "live_env = demo_env\<lparr>configured := True\<rparr>"

text \<open>A backend on which every write is rejected.\<close>

definition failing_writes_env :: env where
  "failing_writes_env =
     live_env\<lparr>fault := (\<lambda>c. if is_write c then Some (Throws (ErrorObject ''network'')) else None)\<rparr>"

text \<open>A backend on which the posts query resolves with an error.\<close>

definition failing_query_env :: env where
  "failing_query_env =
     live_env\<lparr>fault := (\<lambda>c. case c of SelectPosts _ \<Rightarrow> Some (Fails ''timeout'')
                               | SelectPostsJoined _ \<Rightarrow> Some (Fails ''timeout'')
                               | _ \<Rightarrow> None)\<rparr>"

definition sample_profile :: "string \<Rightarrow> string \<Rightarrow> profile" where
  "sample_profile i n =
     \<lparr>prof_id = i, username = Some n, full_name = Some n, display_name = Some n,
      email = None, avatar_url = None, bio = None, website = None, location = None,
      prof_created_at = Some 1, prof_updated_at = Some 1\<rparr>"

definition sample_row :: "string \<Rightarrow> string \<Rightarrow> string option \<Rightarrow> string option \<Rightarrow> bool \<Rightarrow> timestamp \<Rightarrow> post" where
  "sample_row i u v c a t =
     \<lparr>post_id = i, user_id = u, content = ''hello'', images = None, files = None,
      visibility = v, community_id = c, is_anonymous = Some a, created_at = t, updated_at = t,
      profiles = None, likes = None, comments = None, post_count = None\<rparr>"

text \<open>A small backend: a public post, an anonymous post with one like and two comments,
  and a post of the community \<open>c1\<close>.\<close>

definition sample_db :: database where
  "sample_db =
     \<lparr>tbl_posts =
        [sample_row ''p1'' ''u1'' (Some ''public'') None False 10,
         sample_row ''p2'' ''u2'' (Some ''anonymous'') None True 20,
         sample_row ''p3'' ''u1'' (Some ''public'') (Some ''c1'') False 30],
      tbl_profiles = [sample_profile ''u1'' ''alice'', sample_profile ''u2'' ''bob''],
      tbl_likes = [\<lparr>lr_id = ''l1'', lr_user_id = ''u1'', lr_post_id = ''p2''\<rparr>],
      tbl_comments =
        [\<lparr>cr_id = ''k1'', cr_post_id = ''p2'', cr_user_id = ''u1'', cr_content = ''first'',
          cr_created_at = 21\<rparr>,
         \<lparr>cr_id = ''k2'', cr_post_id = ''p2'', cr_user_id = ''u2'', cr_content = ''second'',
          cr_created_at = 22\<rparr>],
      tbl_post_likes = [\<lparr>lr_id = ''l1'', lr_user_id = ''u1'', lr_post_id = ''p2''\<rparr>],
      tbl_post_comments =
        [\<lparr>cr_id = ''k1'', cr_post_id = ''p2'', cr_user_id = ''u1'', cr_content = ''first'',
          cr_created_at = 21\<rparr>,
         \<lparr>cr_id = ''k2'', cr_post_id = ''p2'', cr_user_id = ''u2'', cr_content = ''second'',
          cr_created_at = 22\<rparr>]\<rparr>"

text \<open>A component whose local state is behind the backend: it still shows a like of \<open>u1\<close>
  on \<open>p1\<close> that the table no longer holds.\<close>

definition stale_world :: world where
  "stale_world =
     (initial_world sample_db)
       \<lparr>posts := [(sample_row ''p1'' ''u1'' (Some ''public'') None False 10)
                    \<lparr>likes := Some [\<lparr>like_id = ''l9'', like_user_id = ''u1''\<rparr>],
                     comments := Some [],
                     post_count := Some \<lparr>n_likes = Some 1, n_comments = Some 0\<rparr>\<rparr>],
         loading := False\<rparr>"

section \<open>Helper lemmas\<close>

lemmas sample_defs =
  demo_env_def live_env_def failing_writes_env_def failing_query_env_def initial_world_def
  sample_db_def sample_row_def sample_profile_def

lemmas query_defs =
  select_posts_def select_profile_def select_likes_def select_comments_def
  select_posts_joined_def respond_def matches_def section_filters_def falsy_def
  feed_columns_def like_columns_def comment_columns_def joined_columns_def join_profile_def
  joined_row_def

lemmas load_defs =
  PostFeed_loadPosts_def PostFeed_loadPosts_try_def MainLayout_loadPosts_def
  MainLayout_loadPosts_try_def process_post_def load_profile_def assemble_def with_counts_def
  str_or_def or0_def length_or0_def

subsection \<open>An empty or undefined section\<close>

lemma section_filters_default:
  "s = None \<or> s = Some [] \<Longrightarrow> section_filters s = section_filters (Some ''public'')"
  by (auto simp: section_filters_def falsy_def)

lemma comment_profiles_default:
  "s = None \<or> s = Some [] \<Longrightarrow>
     comment_profiles e d s cs acc = comment_profiles e d (Some ''public'') cs acc"
  by (induction cs arbitrary: acc) (auto split: reply.split prod.split)

lemma comment_profiles_default_fun:
  "s = None \<or> s = Some [] \<Longrightarrow> comment_profiles e d s = comment_profiles e d (Some ''public'')"
  by (intro ext) (rule comment_profiles_default)

lemma load_profile_default_fun:
  "s = None \<or> s = Some [] \<Longrightarrow> load_profile e d s = load_profile e d (Some ''public'')"
  by (intro ext) (auto simp: load_profile_def)

lemma assemble_default_fun:
  assumes "s = None \<or> s = Some []"
  shows "assemble s = assemble (Some ''public'')"
proof -
  have "str_or s ''public'' = str_or (Some ''public'') ''public''"
    using assms by (auto simp: str_or_def)
  then show ?thesis
    unfolding assemble_def by simp
qed

lemma process_post_default_fun:
  assumes "s = None \<or> s = Some []"
  shows "process_post e d s = process_post e d (Some ''public'')"
  unfolding process_post_def comment_profiles_default_fun [OF assms]
    load_profile_default_fun [OF assms] assemble_default_fun [OF assms] ..

lemma process_posts_default:
  "s = None \<or> s = Some [] \<Longrightarrow>
     process_posts e d s ps acc = process_posts e d (Some ''public'') ps acc"
  by (induction ps arbitrary: acc)
     (auto simp: process_post_default_fun split: prod.split sum.split)

lemma process_posts_default_fun:
  "s = None \<or> s = Some [] \<Longrightarrow> process_posts e d s = process_posts e d (Some ''public'')"
  by (intro ext) (rule process_posts_default)

lemma PostFeed_loadPosts_try_default:
  assumes a: "s = None \<or> s = Some []"
  shows "PostFeed_loadPosts_try e s = PostFeed_loadPosts_try e (Some ''public'')"
proof -
  have f: "(s = Some ''public'' \<or> falsy s) = (Some ''public'' = Some ''public'' \<or> falsy (Some ''public''))"
    using a by (auto simp: falsy_def)
  have n: "(s = Some ''anonymous'') = (Some ''public'' = Some ''anonymous'')"
    using a by auto
  show ?thesis
    unfolding PostFeed_loadPosts_try_def f n section_filters_default [OF a]
      process_posts_default_fun [OF a] ..
qed

lemma PostFeed_loadPosts_default:
  "s = None \<or> s = Some [] \<Longrightarrow> PostFeed_loadPosts e s w = PostFeed_loadPosts e (Some ''public'') w"
  by (simp add: PostFeed_loadPosts_def PostFeed_loadPosts_try_default)

subsection \<open>Counts\<close>

lemma length_or0_eq: "length_or0 ls = int (length (case ls of None \<Rightarrow> [] | Some l \<Rightarrow> l))"
  by (simp add: length_or0_def or0_def split: option.split)

lemma assemble_counts_ok: "counts_ok (assemble section p profile ls cs)"
  by (simp add: counts_ok_def assemble_def length_or0_eq or0_def)

lemma with_counts_ok: "counts_ok (with_counts p)"
  by (simp add: counts_ok_def with_counts_def length_or0_eq)

lemma process_post_counts_ok: "process_post e d section p = (Inr q, tr) \<Longrightarrow> counts_ok q"
  by (auto simp: process_post_def assemble_counts_ok split: prod.splits sum.splits reply.splits)

lemma process_posts_counts_ok:
  "process_posts e d section ps acc = (Inr qs, tr) \<Longrightarrow> list_all counts_ok acc
     \<Longrightarrow> list_all counts_ok qs"
proof (induction ps arbitrary: acc tr)
  case Nil
  then show ?case by simp
next
  case (Cons p ps)
  then show ?case
    by (auto split: prod.splits sum.splits dest: process_post_counts_ok)
qed

lemma PostFeed_try_counts_ok:
  assumes "configured e" and "PostFeed_loadPosts_try e section w = (r, w')"
  shows "(r = None \<and> error w' = None \<and> list_all counts_ok (posts w'))
       \<or> (posts w' = posts w \<and> (r \<noteq> None \<or> error w' \<noteq> None))"
  using assms
  unfolding PostFeed_loadPosts_try_def Let_def
  by (auto simp del: process_posts.simps
        split: reply.splits option.splits list.splits prod.splits sum.splits
        dest: process_posts_counts_ok)

lemma PostFeed_load_counts_ok:
  assumes "configured e"
    and "error (PostFeed_loadPosts e section w) = None \<or> list_all counts_ok (posts w)"
  shows "list_all counts_ok (posts (PostFeed_loadPosts e section w))"
proof (cases "PostFeed_loadPosts_try e section w")
  case (Pair r w')
  from PostFeed_try_counts_ok [OF assms(1) Pair] assms(2) Pair show ?thesis
    by (auto simp: PostFeed_loadPosts_def split: option.splits)
qed

lemma MainLayout_load_counts_ok:
  assumes "configured e"
    and "error (MainLayout_loadPosts e profile cs w) = None \<or> list_all counts_ok (posts w)"
  shows "list_all counts_ok (posts (MainLayout_loadPosts e profile cs w))"
  using assms
  unfolding MainLayout_loadPosts_def MainLayout_loadPosts_try_def Let_def
  by (auto simp: list_all_iff with_counts_ok split: reply.splits option.splits)

subsection \<open>Handlers\<close>

lemma toggle_demo_adjusted:
  "toggle_demo uid pid p = (if post_id p = pid then likes_count_adjusted uid p else p)"
  by (auto simp: toggle_demo_def likes_count_adjusted_def Let_def list_ex_iff split: option.split)






subsection \<open>The anonymous section\<close>

lemma comment_profiles_anonymous:
  "comment_profiles e d (Some ''anonymous'') cs acc
     = (Inr (acc @ map (\<lambda>c. c\<lparr>c_profiles := None\<rparr>) cs), [])"
  by (induction cs arbitrary: acc) simp_all

lemma process_post_anonymous:
  "process_post e d (Some ''anonymous'') p = (Inr q, tr) \<Longrightarrow> author_hidden q"
  by (auto simp: process_post_def load_profile_def assemble_def author_hidden_def
        comment_profiles_anonymous list_all_iff
        split: reply.splits option.splits)

lemma process_posts_anonymous:
  "process_posts e d (Some ''anonymous'') ps acc = (Inr qs, tr) \<Longrightarrow> list_all author_hidden acc
     \<Longrightarrow> list_all author_hidden qs"
proof (induction ps arbitrary: acc tr)
  case Nil
  then show ?case by simp
next
  case (Cons p ps)
  then show ?case
    by (auto split: prod.splits sum.splits dest: process_post_anonymous)
qed

lemma demo_anonymous_hidden: "list_all author_hidden (demoAnonymousPostsData t)"
  by (simp add: demoAnonymousPostsData_def author_hidden_def)

lemma PostFeed_try_anonymous:
  assumes "PostFeed_loadPosts_try e (Some ''anonymous'') w = (r, w')"
  shows "(r = None \<and> error w' = None \<and> list_all author_hidden (posts w'))
       \<or> (posts w' = posts w \<and> (r \<noteq> None \<or> error w' \<noteq> None))"
  using assms
  unfolding PostFeed_loadPosts_try_def Let_def
  by (auto simp del: process_posts.simps simp: falsy_def demo_anonymous_hidden
        split: reply.splits option.splits list.splits prod.splits sum.splits if_splits
        dest: process_posts_anonymous)

lemma PostFeed_anonymous_author_hidden:
  assumes "error (PostFeed_loadPosts e (Some ''anonymous'') w) = None \<or> list_all author_hidden (posts w)"
  shows "list_all author_hidden (posts (PostFeed_loadPosts e (Some ''anonymous'') w))"
proof (cases "PostFeed_loadPosts_try e (Some ''anonymous'') w")
  case (Pair r w')
  from PostFeed_try_anonymous [OF Pair] assms Pair show ?thesis
    by (auto simp: PostFeed_loadPosts_def split: option.splits)
qed

subsection \<open>What a load stores\<close>

lemma PostFeed_try_summary:
  "db (snd (PostFeed_loadPosts_try e s w)) = db w
   \<and> posts (snd (PostFeed_loadPosts_try e s w))
       = (case PostFeed_outcome e s (db w) of None \<Rightarrow> posts w | Some ps \<Rightarrow> ps)"
proof (cases "configured e")
  case False
  then show ?thesis
    by (simp add: PostFeed_loadPosts_try_def PostFeed_outcome_def)
next
  case cfg: True
  show ?thesis
  proof (cases "select_posts e (db w) (section_filters s)")
    case (Rejected t)
    with cfg show ?thesis
      by (simp add: PostFeed_loadPosts_try_def PostFeed_outcome_def)
  next
    case (Resolved sp err)
    show ?thesis
    proof (cases err)
      case (Some m)
      with cfg Resolved show ?thesis
        by (simp add: PostFeed_loadPosts_try_def PostFeed_outcome_def)
    next
      case None
      show ?thesis
      proof (cases sp)
        case sp: None
        with cfg Resolved None show ?thesis
          by (simp add: PostFeed_loadPosts_try_def PostFeed_outcome_def)
      next
        case sp: (Some ps)
        show ?thesis
        proof (cases ps)
          case Nil
          with cfg Resolved None sp show ?thesis
            by (simp add: PostFeed_loadPosts_try_def PostFeed_outcome_def)
        next
          case (Cons p ps')
          obtain r tr where pp: "process_posts e (db w) s (p # ps') [] = (r, tr)"
            by (cases "process_posts e (db w) s (p # ps') []")
          with cfg Resolved None sp Cons show ?thesis
            by (cases r) (simp_all add: PostFeed_loadPosts_try_def PostFeed_outcome_def
                  del: process_posts.simps)
        qed
      qed
    qed
  qed
qed

lemma PostFeed_loadPosts_db: "db (PostFeed_loadPosts e s w) = db w"
  using PostFeed_try_summary [of e s w]
  by (cases "PostFeed_loadPosts_try e s w") (auto simp: PostFeed_loadPosts_def split: option.split)

lemma PostFeed_loadPosts_posts:
  "posts (PostFeed_loadPosts e s w)
     = (case PostFeed_outcome e s (db w) of None \<Rightarrow> posts w | Some ps \<Rightarrow> ps)"
  using PostFeed_try_summary [of e s w]
  by (cases "PostFeed_loadPosts_try e s w") (auto simp: PostFeed_loadPosts_def split: option.split)

lemma MainLayout_try_summary:
  "db (snd (MainLayout_loadPosts_try e pr cs w)) = db w
   \<and> posts (snd (MainLayout_loadPosts_try e pr cs w))
       = (case MainLayout_outcome e pr cs (db w) of None \<Rightarrow> posts w | Some ps \<Rightarrow> ps)"
proof (cases "configured e")
  case False
  then show ?thesis
    by (simp add: MainLayout_loadPosts_try_def MainLayout_outcome_def)
next
  case cfg: True
  show ?thesis
  proof (cases "select_posts_joined e (db w) (cs = ''anonymous'')")
    case (Rejected t)
    with cfg show ?thesis
      by (simp add: MainLayout_loadPosts_try_def MainLayout_outcome_def)
  next
    case (Resolved sp err)
    with cfg show ?thesis
      by (cases err) (simp_all add: MainLayout_loadPosts_try_def MainLayout_outcome_def)
  qed
qed

lemma MainLayout_loadPosts_db: "db (MainLayout_loadPosts e pr cs w) = db w"
  using MainLayout_try_summary [of e pr cs w]
  by (cases "MainLayout_loadPosts_try e pr cs w") (auto simp: MainLayout_loadPosts_def split: option.split)

lemma MainLayout_loadPosts_posts:
  "posts (MainLayout_loadPosts e pr cs w)
     = (case MainLayout_outcome e pr cs (db w) of None \<Rightarrow> posts w | Some ps \<Rightarrow> ps)"
  using MainLayout_try_summary [of e pr cs w]
  by (cases "MainLayout_loadPosts_try e pr cs w") (auto simp: MainLayout_loadPosts_def split: option.split)

lemma MainLayout_outcome_clock:
  "map_option (map identity_and_counts) (MainLayout_outcome (e\<lparr>clock := t\<rparr>) pr cs d)
     = map_option (map identity_and_counts) (MainLayout_outcome e pr cs d)"
  by (simp add: MainLayout_outcome_def select_posts_joined_def respond_def demoPosts_def
        identity_and_counts_def split: option.split fault.split)

subsection \<open>The like toggle in backend mode\<close>

lemma liked_like_rows: "liked rows uid pid \<longleftrightarrow> 0 < like_rows rows uid pid"
  by (auto simp: liked_def like_rows_def list_ex_iff filter_empty_conv)

lemma find_likes_of_None:
  "find (\<lambda>l. like_user_id l = uid) (likes_of rows pid) = None \<longleftrightarrow> like_rows rows uid pid = 0"
  by (auto simp: find_None_iff likes_of_def like_columns_def like_rows_def filter_empty_conv)

lemma find_likes_of_Some:
  assumes "find (\<lambda>l. like_user_id l = uid) (likes_of rows pid) = Some l"
  shows "\<exists>r \<in> set rows. lr_id r = like_id l \<and> lr_user_id r = uid \<and> lr_post_id r = pid"
proof -
  from assms have "l \<in> set (likes_of rows pid)" and "like_user_id l = uid"
    by (auto simp: find_Some_iff)
  then show ?thesis
    by (auto simp: likes_of_def like_columns_def)
qed

lemma like_rows_insert:
  "like_rows (insert_like_row e d uid pid rows) uid pid = like_rows rows uid pid + 1"
  by (simp add: like_rows_def insert_like_row_def)

lemma like_rows_delete:
  assumes "r \<in> set rows" and "lr_user_id r = uid" and "lr_post_id r = pid"
    and "like_rows rows uid pid \<le> 1"
  shows "like_rows (delete_by_id (lr_id r) rows) uid pid = 0"
proof -
  let ?P = "\<lambda>r. lr_user_id r = uid \<and> lr_post_id r = pid"
  have "r \<in> set (filter ?P rows)" using assms by simp
  moreover have "length (filter ?P rows) \<le> 1" using assms by (simp add: like_rows_def)
  ultimately have "filter ?P rows = [r]"
    by (cases "filter ?P rows") auto
  then have "set (filter ?P rows) = {r}"
    by simp
  then have "\<forall>x \<in> set rows. ?P x \<longrightarrow> x = r"
    by auto
  then show ?thesis
    by (auto simp: like_rows_def delete_by_id_def filter_empty_conv)
qed

lemma existingLike_in_sync:
  assumes "likes_in_sync rows ps" and "pid \<in> post_id ` set ps"
  shows "existingLike ps pid uid = find (\<lambda>l. like_user_id l = uid) (likes_of rows pid)"
proof -
  from assms(2) obtain p where p: "find (\<lambda>p. post_id p = pid) ps = Some p"
    by (cases "find (\<lambda>p. post_id p = pid) ps") (auto simp: find_None_iff)
  then have "p \<in> set ps" and "post_id p = pid"
    by (auto simp: find_Some_iff)
  with assms(1) have "likes p = Some (likes_of rows pid)"
    by (auto simp: likes_in_sync_def list_all_iff)
  with p show ?thesis
    by (simp add: existingLike_def)
qed

lemma toggled_rows_count:
  assumes "likes_in_sync rows ps" and "pid \<in> post_id ` set ps" and "like_rows rows uid pid \<le> 1"
  shows "like_rows (toggled_rows e d ps uid pid rows) uid pid = 1 - like_rows rows uid pid"
proof (cases "find (\<lambda>l. like_user_id l = uid) (likes_of rows pid)")
  case None
  then have "like_rows rows uid pid = 0"
    by (simp add: find_likes_of_None)
  with None assms show ?thesis
    by (simp add: toggled_rows_def existingLike_in_sync like_rows_insert)
next
  case (Some l)
  from find_likes_of_Some [OF Some] obtain r where r: "r \<in> set rows" "lr_id r = like_id l"
    "lr_user_id r = uid" "lr_post_id r = pid"
    by blast
  then have "0 < like_rows rows uid pid"
    by (auto simp: like_rows_def filter_empty_conv)
  with assms(3) have one: "like_rows rows uid pid = 1"
    by simp
  from like_rows_delete [OF r(1) r(3) r(4) assms(3)] r(2)
  have "like_rows (delete_by_id (like_id l) rows) uid pid = 0"
    by simp
  with Some assms one show ?thesis
    by (simp add: toggled_rows_def existingLike_in_sync)
qed

lemma select_profile_no_fault:
  "fault e = (\<lambda>c. None) \<Longrightarrow> \<exists>x y. select_profile e d uid = Resolved x y"
  by (simp add: select_profile_def respond_def split: list.split)

lemma comment_profiles_no_fault:
  "fault e = (\<lambda>c. None) \<Longrightarrow> \<exists>r tr. comment_profiles e d s cs acc = (Inr r, tr)"
proof (induction cs arbitrary: acc)
  case Nil
  then show ?case by simp
next
  case (Cons c cs)
  from select_profile_no_fault [OF Cons.prems, of d "c_user_id c"]
  obtain x y where sp: "select_profile e d (c_user_id c) = Resolved x y"
    by blast
  from Cons.IH [OF Cons.prems, of "acc @ [c\<lparr>c_profiles := x\<rparr>]"]
       Cons.IH [OF Cons.prems, of "acc @ [c\<lparr>c_profiles := None\<rparr>]"] sp
  show ?case
    by auto
qed

lemma process_post_no_fault:
  assumes "fault e = (\<lambda>c. None)"
  shows "\<exists>q tr. process_post e d s p = (Inr q, tr) \<and> post_id q = post_id p
           \<and> likes q = Some (likes_of (tbl_likes d) (post_id p))"
proof -
  from select_profile_no_fault [OF assms, of d "user_id p"]
  obtain x y where sp: "select_profile e d (user_id p) = Resolved x y"
    by blast
  have "\<exists>pr tr1. load_profile e d s p = (Inr pr, tr1)"
    using sp by (simp add: load_profile_def)
  then obtain pr tr1 where lp: "load_profile e d s p = (Inr pr, tr1)"
    by blast
  have sl: "select_likes e d (post_id p) = Resolved (Some (likes_of (tbl_likes d) (post_id p))) None"
    using assms by (simp add: select_likes_def respond_def likes_of_def)
  have "\<exists>cl. select_comments e d (post_id p) = Resolved (Some cl) None"
    using assms by (simp add: select_comments_def respond_def)
  then obtain cl where sc: "select_comments e d (post_id p) = Resolved (Some cl) None"
    by blast
  from comment_profiles_no_fault [OF assms, of d s cl "[]"]
  obtain r tr2 where cp: "comment_profiles e d s cl [] = (Inr r, tr2)"
    by blast
  show ?thesis
    by (simp add: process_post_def lp sl sc cp assemble_def)
qed

lemma process_posts_no_fault:
  assumes "fault e = (\<lambda>c. None)"
  shows "\<exists>qs tr. process_posts e d s ps acc = (Inr (acc @ qs), tr)
           \<and> map post_id qs = map post_id ps \<and> likes_in_sync (tbl_likes d) qs"
proof (induction ps arbitrary: acc)
  case Nil
  then show ?case by (simp add: likes_in_sync_def)
next
  case (Cons p ps)
  from process_post_no_fault [OF assms, of d s p]
  obtain q tr where q: "process_post e d s p = (Inr q, tr)" "post_id q = post_id p"
    "likes q = Some (likes_of (tbl_likes d) (post_id p))"
    by blast
  from Cons.IH [of "acc @ [q]"]
  obtain qs tr' where qs: "process_posts e d s ps (acc @ [q]) = (Inr (acc @ [q] @ qs), tr')"
    "map post_id qs = map post_id ps" "likes_in_sync (tbl_likes d) qs"
    by auto
  have "process_posts e d s (p # ps) acc = (Inr (acc @ (q # qs)), tr @ tr')"
    using q qs by simp
  moreover have "map post_id (q # qs) = map post_id (p # ps)"
    using q qs by simp
  moreover have "likes_in_sync (tbl_likes d) (q # qs)"
    using q qs by (simp add: likes_in_sync_def)
  ultimately show ?case
    by blast
qed

lemma PostFeed_outcome_no_fault:
  assumes "configured e" and "fault e = (\<lambda>c. None)"
  shows "\<exists>qs. PostFeed_outcome e s d = Some qs
           \<and> post_id ` set qs = post_id ` set (filter (matches (section_filters s)) (tbl_posts d))
           \<and> likes_in_sync (tbl_likes d) qs"
proof -
  let ?rows = "sort_key (\<lambda>p. - created_at p) (filter (matches (section_filters s)) (tbl_posts d))"
  have sp: "select_posts e d (section_filters s) = Resolved (Some ?rows) None"
    using assms by (simp add: select_posts_def respond_def)
  from process_posts_no_fault [OF assms(2), of d s ?rows "[]"]
  obtain qs tr where qs: "process_posts e d s ?rows [] = (Inr qs, tr)"
    "map post_id qs = map post_id ?rows" "likes_in_sync (tbl_likes d) qs"
    by auto
  from qs(2) have "set (map post_id qs) = set (map post_id ?rows)"
    by simp
  then have "post_id ` set qs = post_id ` set (filter (matches (section_filters s)) (tbl_posts d))"
    by simp
  with qs assms sp show ?thesis
    by (simp add: PostFeed_outcome_def)
qed


lemma MainLayout_outcome_no_fault:
  assumes "configured e" and "fault e = (\<lambda>c. None)"
  shows "\<exists>qs. MainLayout_outcome e pr cs d = Some qs
           \<and> post_id ` set qs
               = post_id ` set (filter (\<lambda>p. is_anonymous p = Some (cs = ''anonymous'')) (tbl_posts d))
           \<and> likes_in_sync (tbl_post_likes d) qs"
proof -
  let ?rows = "sort_key (\<lambda>p. - created_at p)
                 (filter (\<lambda>p. is_anonymous p = Some (cs = ''anonymous'')) (tbl_posts d))"
  let ?qs = "map with_counts (map (joined_row d) ?rows)"
  have "MainLayout_outcome e pr cs d = Some ?qs"
    using assms by (simp add: MainLayout_outcome_def select_posts_joined_def respond_def)
  moreover have "map post_id ?qs = map post_id ?rows"
    by (simp add: with_counts_def joined_row_def)
  then have "set (map post_id ?qs) = set (map post_id ?rows)"
    by simp
  then have "post_id ` set ?qs
               = post_id ` set (filter (\<lambda>p. is_anonymous p = Some (cs = ''anonymous'')) (tbl_posts d))"
    by (simp only: set_map set_sort)
  moreover have "likes_in_sync (tbl_post_likes d) ?qs"
    by (simp add: likes_in_sync_def list_all_iff with_counts_def joined_row_def likes_of_def)
  ultimately show ?thesis
    by blast
qed

lemma mutate_no_fault: "fault e = (\<lambda>c. None) \<Longrightarrow> mutate e c d d' = (Resolved None None, d')"
  by (simp add: mutate_def)

lemma PostFeed_handleLike_no_fault:
  assumes "configured e" and "fault e = (\<lambda>c. None)"
  shows "PostFeed_handleLike e u s pid w =
           (None, PostFeed_loadPosts e s
                    (w\<lparr>db := (db w)\<lparr>tbl_likes :=
                            toggled_rows e (db w) (posts w) (prof_id u) pid (tbl_likes (db w))\<rparr>,
                       trace := trace w @ [PostFeed_like_call (posts w) (prof_id u) pid]\<rparr>))"
  using assms
  by (cases "existingLike (posts w) pid (prof_id u)")
     (simp_all add: PostFeed_handleLike_def toggled_rows_def PostFeed_like_call_def mutate_no_fault)

lemma MainLayout_handleLike_no_fault:
  assumes "configured e" and "fault e = (\<lambda>c. None)"
  shows "MainLayout_handleLike e u cs pid w =
           (None, MainLayout_loadPosts e u cs
                    (w\<lparr>db := (db w)\<lparr>tbl_post_likes :=
                            toggled_rows e (db w) (posts w) (prof_id u) pid (tbl_post_likes (db w))\<rparr>,
                       trace := trace w @ [MainLayout_like_call (posts w) (prof_id u) pid]\<rparr>))"
  using assms
  by (cases "existingLike (posts w) pid (prof_id u)")
     (simp_all add: MainLayout_handleLike_def toggled_rows_def MainLayout_like_call_def mutate_no_fault)

lemma PostFeed_toggle_step:
  assumes cfg: "configured e" and nf: "fault e = (\<lambda>c. None)"
    and sync: "likes_in_sync (tbl_likes (db w)) (posts w)"
    and ids: "post_id ` set (posts w)
                = post_id ` set (filter (matches (section_filters s)) (tbl_posts (db w)))"
    and mem: "pid \<in> post_id ` set (posts w)"
    and one: "like_rows (tbl_likes (db w)) (prof_id u) pid \<le> 1"
  defines "w' \<equiv> snd (PostFeed_handleLike e u s pid w)"
  shows "like_rows (tbl_likes (db w')) (prof_id u) pid
           = 1 - like_rows (tbl_likes (db w)) (prof_id u) pid"
    and "likes_in_sync (tbl_likes (db w')) (posts w')"
    and "post_id ` set (posts w')
           = post_id ` set (filter (matches (section_filters s)) (tbl_posts (db w')))"
    and "pid \<in> post_id ` set (posts w')"
    and "tbl_posts (db w') = tbl_posts (db w)"
proof -
  let ?rows = "toggled_rows e (db w) (posts w) (prof_id u) pid (tbl_likes (db w))"
  let ?d = "(db w)\<lparr>tbl_likes := ?rows\<rparr>"
  have d: "db w' = ?d"
    by (simp add: w'_def PostFeed_handleLike_no_fault [OF cfg nf] PostFeed_loadPosts_db)
  from PostFeed_outcome_no_fault [OF cfg nf, of s ?d]
  obtain qs where qs: "PostFeed_outcome e s ?d = Some qs"
    "post_id ` set qs = post_id ` set (filter (matches (section_filters s)) (tbl_posts ?d))"
    "likes_in_sync (tbl_likes ?d) qs"
    by blast
  have p: "posts w' = qs"
    by (simp add: w'_def PostFeed_handleLike_no_fault [OF cfg nf] PostFeed_loadPosts_posts qs(1))
  show "like_rows (tbl_likes (db w')) (prof_id u) pid
           = 1 - like_rows (tbl_likes (db w)) (prof_id u) pid"
    using toggled_rows_count [OF sync mem one] d by simp
  show "likes_in_sync (tbl_likes (db w')) (posts w')"
    using qs(3) d p by simp
  show "post_id ` set (posts w')
           = post_id ` set (filter (matches (section_filters s)) (tbl_posts (db w')))"
    using qs(2) d p by simp
  show "tbl_posts (db w') = tbl_posts (db w)"
    using d by simp
  show "pid \<in> post_id ` set (posts w')"
    using qs(2) d p ids mem by simp
qed

lemma MainLayout_toggle_step:
  assumes cfg: "configured e" and nf: "fault e = (\<lambda>c. None)"
    and sync: "likes_in_sync (tbl_post_likes (db w)) (posts w)"
    and ids: "post_id ` set (posts w)
                = post_id ` set (filter (\<lambda>p. is_anonymous p = Some (cs = ''anonymous''))
                                   (tbl_posts (db w)))"
    and mem: "pid \<in> post_id ` set (posts w)"
    and one: "like_rows (tbl_post_likes (db w)) (prof_id u) pid \<le> 1"
  defines "w' \<equiv> snd (MainLayout_handleLike e u cs pid w)"
  shows "like_rows (tbl_post_likes (db w')) (prof_id u) pid
           = 1 - like_rows (tbl_post_likes (db w)) (prof_id u) pid"
    and "likes_in_sync (tbl_post_likes (db w')) (posts w')"
    and "post_id ` set (posts w')
           = post_id ` set (filter (\<lambda>p. is_anonymous p = Some (cs = ''anonymous''))
                              (tbl_posts (db w')))"
    and "pid \<in> post_id ` set (posts w')"
    and "tbl_posts (db w') = tbl_posts (db w)"
proof -
  let ?rows = "toggled_rows e (db w) (posts w) (prof_id u) pid (tbl_post_likes (db w))"
  let ?d = "(db w)\<lparr>tbl_post_likes := ?rows\<rparr>"
  have d: "db w' = ?d"
    by (simp add: w'_def MainLayout_handleLike_no_fault [OF cfg nf] MainLayout_loadPosts_db)
  from MainLayout_outcome_no_fault [OF cfg nf, of u cs ?d]
  obtain qs where qs: "MainLayout_outcome e u cs ?d = Some qs"
    "post_id ` set qs = post_id ` set (filter (\<lambda>p. is_anonymous p = Some (cs = ''anonymous''))
                                         (tbl_posts ?d))"
    "likes_in_sync (tbl_post_likes ?d) qs"
    by blast
  have p: "posts w' = qs"
    by (simp add: w'_def MainLayout_handleLike_no_fault [OF cfg nf] MainLayout_loadPosts_posts qs(1))
  show "like_rows (tbl_post_likes (db w')) (prof_id u) pid
           = 1 - like_rows (tbl_post_likes (db w)) (prof_id u) pid"
    using toggled_rows_count [OF sync mem one] d by simp
  show "likes_in_sync (tbl_post_likes (db w')) (posts w')"
    using qs(3) d p by simp
  show "post_id ` set (posts w')
           = post_id ` set (filter (\<lambda>p. is_anonymous p = Some (cs = ''anonymous''))
                              (tbl_posts (db w')))"
    using qs(2) d p by simp
  show "tbl_posts (db w') = tbl_posts (db w)"
    using d by simp
  show "pid \<in> post_id ` set (posts w')"
    using qs(2) d p ids mem by simp
qed

lemma likes_toggle_demo: "likes (toggle_demo uid pid p) = likes p"
  by (simp add: toggle_demo_def Let_def)

section \<open>The claims\<close>

text \<open>
  C1. With the section \<open>anonymous\<close>, \<open>PostFeed\<close> stores posts without author profile and
  with comments without author profile (lemma \<open>PostFeed_anonymous_author_hidden\<close>), whatever
  the profiles table holds. \<open>MainLayout\<close> does not: its query embeds the author profiles and
  nothing removes them. On the sample backend the anonymous post of \<open>u2\<close> comes back with
  the profile of \<open>u2\<close>, and its comments with the profiles of their authors.
\<close>

theorem MainLayout_anonymous_keeps_profile:
  "map profiles (posts (MainLayout_loadPosts live_env (sample_profile ''u1'' ''alice'') ''anonymous''
        (initial_world sample_db)))
     = [Some (joined_columns (sample_profile ''u2'' ''bob''))]
   \<and> \<not> list_all author_hidden
         (posts (MainLayout_loadPosts live_env (sample_profile ''u1'' ''alice'') ''anonymous''
            (initial_world sample_db)))"
  by (simp add: load_defs query_defs sample_defs author_hidden_def)

text \<open>
  C2, as the code has it. After a load in backend mode that replaced the posts (no error is
  set), every post of either loader has \<open>_count.likes\<close> equal to the length of its like list
  and \<open>_count.comments\<close> equal to the length of its comment list, an absent list counting
  as empty; a load that fails keeps the posts it found, so the equality is preserved from
  one load to the next. The demo sample posts are outside this: they carry fixed counts
  beside empty lists.
\<close>

theorem backend_load_counts_ok:
  assumes "configured e"
  shows "(error (PostFeed_loadPosts e section w) = None \<or> list_all counts_ok (posts w)
            \<longrightarrow> list_all counts_ok (posts (PostFeed_loadPosts e section w)))
       \<and> (error (MainLayout_loadPosts e profile currentSection w) = None \<or> list_all counts_ok (posts w)
            \<longrightarrow> list_all counts_ok (posts (MainLayout_loadPosts e profile currentSection w)))"
  using assms PostFeed_load_counts_ok [of e "section" w]
    MainLayout_load_counts_ok [of e profile currentSection w]
  by blast

theorem backend_load_counts_ok_witness:
  "configured live_env
   \<and> error (PostFeed_loadPosts live_env (Some ''anonymous'') (initial_world sample_db)) = None
   \<and> list_all counts_ok
        (posts (PostFeed_loadPosts live_env (Some ''anonymous'') (initial_world sample_db)))
   \<and> map identity_and_counts
        (posts (PostFeed_loadPosts live_env (Some ''anonymous'') (initial_world sample_db)))
       = [(''p2'', Some \<lparr>n_likes = Some 1, n_comments = Some 2\<rparr>)]
   \<and> error (MainLayout_loadPosts live_env (sample_profile ''u1'' ''alice'') ''anonymous''
              (initial_world sample_db)) = None
   \<and> list_all counts_ok
        (posts (MainLayout_loadPosts live_env (sample_profile ''u1'' ''alice'') ''anonymous''
                  (initial_world sample_db)))"
proof -
  have c: "configured live_env"
    by (simp add: sample_defs)
  have e1: "error (PostFeed_loadPosts live_env (Some ''anonymous'') (initial_world sample_db)) = None"
    by (simp add: load_defs query_defs sample_defs)
  have e2: "error (MainLayout_loadPosts live_env (sample_profile ''u1'' ''alice'') ''anonymous''
              (initial_world sample_db)) = None"
    by (simp add: load_defs query_defs sample_defs)
  have v: "map identity_and_counts
        (posts (PostFeed_loadPosts live_env (Some ''anonymous'') (initial_world sample_db)))
       = [(''p2'', Some \<lparr>n_likes = Some 1, n_comments = Some 2\<rparr>)]"
    by (simp add: load_defs query_defs sample_defs identity_and_counts_def)
  from backend_load_counts_ok
         [OF c, of "Some ''anonymous''" "initial_world sample_db" "sample_profile ''u1'' ''alice''"
            "''anonymous''"] c e1 e2 v
  show ?thesis by simp
qed

text \<open>C2 as stated fails on the demo sample posts: the first one has \<open>_count.likes = 5\<close>
  beside an empty like list.\<close>

theorem demo_counts_differ_from_lists:
  "\<not> list_all counts_ok
       (posts (PostFeed_loadPosts demo_env (Some ''public'') (initial_world sample_db)))"
  by (simp add: PostFeed_loadPosts_def PostFeed_loadPosts_try_def demo_env_def
        demoPostsData_def counts_ok_def)

text \<open>
  C3. The partition resolver of \<open>PostFeed\<close>: \<open>public\<close> selects the posts with visibility
  \<open>public\<close> and no community, \<open>anonymous\<close> those with visibility \<open>anonymous\<close> and no
  community, any other non-empty string the posts of that community; an empty or undefined
  section gives the same filters as \<open>public\<close>, and the whole load is then the load of
  \<open>public\<close>.
\<close>

theorem partition_resolver:
  "(matches (section_filters (Some ''public'')) p
      \<longleftrightarrow> visibility p = Some ''public'' \<and> community_id p = None)
   \<and> (matches (section_filters (Some ''anonymous'')) p
      \<longleftrightarrow> visibility p = Some ''anonymous'' \<and> community_id p = None)
   \<and> (s \<noteq> [] \<and> s \<noteq> ''public'' \<and> s \<noteq> ''anonymous''
      \<longrightarrow> (matches (section_filters (Some s)) p \<longleftrightarrow> community_id p = Some s))
   \<and> section_filters None = section_filters (Some ''public'')
   \<and> section_filters (Some []) = section_filters (Some ''public'')
   \<and> PostFeed_loadPosts e None w = PostFeed_loadPosts e (Some ''public'') w
   \<and> PostFeed_loadPosts e (Some []) w = PostFeed_loadPosts e (Some ''public'') w"
  by (simp add: PostFeed_loadPosts_default section_filters_default)
     (simp add: matches_def section_filters_def falsy_def)

theorem partition_resolver_witness:
  "''c1'' \<noteq> [] \<and> ''c1'' \<noteq> ''public'' \<and> ''c1'' \<noteq> ''anonymous''
   \<and> matches (section_filters (Some ''c1''))
        (sample_row ''p3'' ''u1'' (Some ''public'') (Some ''c1'') False 30)
   \<and> \<not> matches (section_filters (Some ''c1''))
        (sample_row ''p1'' ''u1'' (Some ''public'') None False 10)"
  using partition_resolver
          [of "sample_row ''p3'' ''u1'' (Some ''public'') (Some ''c1'') False 30" "''c1''"]
        partition_resolver
          [of "sample_row ''p1'' ''u1'' (Some ''public'') None False 10" "''c1''"]
  by (simp add: sample_row_def)

text \<open>
  C4, as the code has it. When the posts query of a load in backend mode fails, by
  resolving with an error or by rejecting, the load makes no further call, the loading flag
  ends false, the error flag holds a non-empty message, and the posts list is left as it was
  before the load (so it is empty when it was empty).
\<close>

theorem failed_fetch_keeps_posts:
  assumes "configured e"
  shows "(fault e (SelectPosts (section_filters section)) = Some f \<longrightarrow>
           (let w' = PostFeed_loadPosts e section w in
             \<not> loading w'
           \<and> error w' = Some (case f of Fails m \<Rightarrow> ''Database error: '' @ m
                                | Throws t \<Rightarrow> ''Failed to load posts: '' @ thrown_message t)
           \<and> error w' \<noteq> Some []
           \<and> posts w' = posts w
           \<and> trace w' = trace w @ [SelectPosts (section_filters section)]))
       \<and> (fault e (SelectPostsJoined (currentSection = ''anonymous'')) = Some f \<longrightarrow>
           (let w' = MainLayout_loadPosts e profile currentSection w in
             \<not> loading w'
           \<and> error w' = Some (''Failed to load posts: ''
                                @ (case f of Fails m \<Rightarrow> m | Throws t \<Rightarrow> thrown_message t))
           \<and> error w' \<noteq> Some []
           \<and> posts w' = posts w
           \<and> trace w' = trace w @ [SelectPostsJoined (currentSection = ''anonymous'')]))"
  using assms
  by (cases f)
     (simp_all add: PostFeed_loadPosts_def PostFeed_loadPosts_try_def MainLayout_loadPosts_def
        MainLayout_loadPosts_try_def select_posts_def select_posts_joined_def respond_def Let_def)

theorem failed_fetch_keeps_posts_witness:
  "configured failing_query_env
   \<and> fault failing_query_env (SelectPosts (section_filters (Some ''public''))) = Some (Fails ''timeout'')
   \<and> fault failing_query_env (SelectPostsJoined (''public'' = ''anonymous'')) = Some (Fails ''timeout'')
   \<and> error (PostFeed_loadPosts failing_query_env (Some ''public'') (initial_world sample_db))
        = Some ''Database error: timeout''
   \<and> posts (PostFeed_loadPosts failing_query_env (Some ''public'') (initial_world sample_db)) = []
   \<and> \<not> loading (PostFeed_loadPosts failing_query_env (Some ''public'') (initial_world sample_db))
   \<and> error (MainLayout_loadPosts failing_query_env (sample_profile ''u1'' ''alice'') ''public''
              (initial_world sample_db))
        = Some ''Failed to load posts: timeout''"
proof -
  have c: "configured failing_query_env"
    by (simp add: sample_defs)
  have f1: "fault failing_query_env (SelectPosts (section_filters (Some ''public'')))
              = Some (Fails ''timeout'')"
    by (simp add: sample_defs)
  have f2: "fault failing_query_env (SelectPostsJoined (''public'' = ''anonymous''))
              = Some (Fails ''timeout'')"
    by (simp add: sample_defs)
  from failed_fetch_keeps_posts
         [OF c, of "Some ''public''" "Fails ''timeout''" "initial_world sample_db" "''public''"
            "sample_profile ''u1'' ''alice''"] c f1 f2
  show ?thesis by (simp add: Let_def initial_world_def)
qed

text \<open>C4 as stated fails when the component already holds posts: after the failed fetch
  the list is the earlier one, not an empty one.\<close>

theorem failed_fetch_keeps_stale_posts:
  "posts (PostFeed_loadPosts failing_query_env (Some ''public'')
            ((initial_world sample_db)\<lparr>posts := demoAnonymousPostsData 0\<rparr>)) \<noteq> []"
  by (simp add: load_defs query_defs sample_defs demoAnonymousPostsData_def)

text \<open>
  C5, as the code has it. In backend mode, for either component, when no backend call
  fails, the local posts are those of a completed load of the current backend state, the
  post belongs to the loaded partition and the likes table holds at most one row for the
  (user, post) pair, the first like toggle flips the membership of the pair in the likes
  table and the second restores it. In demo mode a toggle changes neither the backend nor
  the cached like lists, so the membership stays as it is.
\<close>

theorem toggle_twice_restores_membership:
  assumes cfg: "configured e" and nf: "fault e = (\<lambda>c. None)"
  shows
   "(like_rows (tbl_likes (db w)) (prof_id u) pid \<le> 1
      \<and> (\<exists>p\<in>set (tbl_posts (db w)). post_id p = pid \<and> matches (section_filters section) p) \<longrightarrow>
      (let w1 = PostFeed_loadPosts e section w;
           w2 = snd (PostFeed_handleLike e u section pid w1);
           w3 = snd (PostFeed_handleLike e u section pid w2)
       in liked (tbl_likes (db w2)) (prof_id u) pid = (\<not> liked (tbl_likes (db w1)) (prof_id u) pid)
        \<and> liked (tbl_likes (db w3)) (prof_id u) pid = liked (tbl_likes (db w1)) (prof_id u) pid))
  \<and> (like_rows (tbl_post_likes (db w)) (prof_id u) pid \<le> 1
      \<and> (\<exists>p\<in>set (tbl_posts (db w)). post_id p = pid
            \<and> is_anonymous p = Some (currentSection = ''anonymous'')) \<longrightarrow>
      (let w1 = MainLayout_loadPosts e u currentSection w;
           w2 = snd (MainLayout_handleLike e u currentSection pid w1);
           w3 = snd (MainLayout_handleLike e u currentSection pid w2)
       in liked (tbl_post_likes (db w2)) (prof_id u) pid
            = (\<not> liked (tbl_post_likes (db w1)) (prof_id u) pid)
        \<and> liked (tbl_post_likes (db w3)) (prof_id u) pid
            = liked (tbl_post_likes (db w1)) (prof_id u) pid))
  \<and> (let e' = e\<lparr>configured := False\<rparr>
      in db (snd (PostFeed_handleLike e' u section pid w)) = db w
       \<and> map likes (posts (snd (PostFeed_handleLike e' u section pid w))) = map likes (posts w)
       \<and> db (snd (MainLayout_handleLike e' u currentSection pid w)) = db w
       \<and> map likes (posts (snd (MainLayout_handleLike e' u currentSection pid w)))
           = map likes (posts w))"
proof (intro conjI impI)
  assume h: "like_rows (tbl_likes (db w)) (prof_id u) pid \<le> 1
      \<and> (\<exists>p\<in>set (tbl_posts (db w)). post_id p = pid \<and> matches (section_filters section) p)"
  define w1 where "w1 = PostFeed_loadPosts e section w"
  define w2 where "w2 = snd (PostFeed_handleLike e u section pid w1)"
  define w3 where "w3 = snd (PostFeed_handleLike e u section pid w2)"
  have d1: "db w1 = db w"
    by (simp add: w1_def PostFeed_loadPosts_db)
  from PostFeed_outcome_no_fault [OF cfg nf, of "section" "db w"]
  obtain qs where qs: "PostFeed_outcome e section (db w) = Some qs"
    "post_id ` set qs = post_id ` set (filter (matches (section_filters section)) (tbl_posts (db w)))"
    "likes_in_sync (tbl_likes (db w)) qs"
    by blast
  have p1: "posts w1 = qs"
    by (simp add: w1_def PostFeed_loadPosts_posts qs(1))
  have sync1: "likes_in_sync (tbl_likes (db w1)) (posts w1)"
    using qs(3) d1 p1 by simp
  have ids1: "post_id ` set (posts w1)
                = post_id ` set (filter (matches (section_filters section)) (tbl_posts (db w1)))"
    using qs(2) d1 p1 by simp
  have mem1: "pid \<in> post_id ` set (posts w1)"
    using h ids1 d1 by force
  have one1: "like_rows (tbl_likes (db w1)) (prof_id u) pid \<le> 1"
    using h d1 by simp
  note s1 = PostFeed_toggle_step [OF cfg nf sync1 ids1 mem1 one1, folded w2_def]
  have one2: "like_rows (tbl_likes (db w2)) (prof_id u) pid \<le> 1"
    using s1(1) by simp
  note s2 = PostFeed_toggle_step [OF cfg nf s1(2) s1(3) s1(4) one2, folded w3_def]
  have "liked (tbl_likes (db w2)) (prof_id u) pid = (\<not> liked (tbl_likes (db w1)) (prof_id u) pid)"
    using s1(1) one1 by (auto simp: liked_like_rows)
  moreover have "liked (tbl_likes (db w3)) (prof_id u) pid = liked (tbl_likes (db w1)) (prof_id u) pid"
    using s1(1) s2(1) one1 by (auto simp: liked_like_rows)
  ultimately show "let w1 = PostFeed_loadPosts e section w;
           w2 = snd (PostFeed_handleLike e u section pid w1);
           w3 = snd (PostFeed_handleLike e u section pid w2)
       in liked (tbl_likes (db w2)) (prof_id u) pid = (\<not> liked (tbl_likes (db w1)) (prof_id u) pid)
        \<and> liked (tbl_likes (db w3)) (prof_id u) pid = liked (tbl_likes (db w1)) (prof_id u) pid"
    by (simp add: Let_def w1_def w2_def w3_def)
next
  assume h: "like_rows (tbl_post_likes (db w)) (prof_id u) pid \<le> 1
      \<and> (\<exists>p\<in>set (tbl_posts (db w)). post_id p = pid
            \<and> is_anonymous p = Some (currentSection = ''anonymous''))"
  define w1 where "w1 = MainLayout_loadPosts e u currentSection w"
  define w2 where "w2 = snd (MainLayout_handleLike e u currentSection pid w1)"
  define w3 where "w3 = snd (MainLayout_handleLike e u currentSection pid w2)"
  have d1: "db w1 = db w"
    by (simp add: w1_def MainLayout_loadPosts_db)
  from MainLayout_outcome_no_fault [OF cfg nf, of u currentSection "db w"]
  obtain qs where qs: "MainLayout_outcome e u currentSection (db w) = Some qs"
    "post_id ` set qs = post_id ` set (filter (\<lambda>p. is_anonymous p = Some (currentSection = ''anonymous''))
                                         (tbl_posts (db w)))"
    "likes_in_sync (tbl_post_likes (db w)) qs"
    by blast
  have p1: "posts w1 = qs"
    by (simp add: w1_def MainLayout_loadPosts_posts qs(1))
  have sync1: "likes_in_sync (tbl_post_likes (db w1)) (posts w1)"
    using qs(3) d1 p1 by simp
  have ids1: "post_id ` set (posts w1)
                = post_id ` set (filter (\<lambda>p. is_anonymous p = Some (currentSection = ''anonymous''))
                                   (tbl_posts (db w1)))"
    using qs(2) d1 p1 by simp
  have mem1: "pid \<in> post_id ` set (posts w1)"
    using h ids1 d1 by force
  have one1: "like_rows (tbl_post_likes (db w1)) (prof_id u) pid \<le> 1"
    using h d1 by simp
  note s1 = MainLayout_toggle_step [OF cfg nf sync1 ids1 mem1 one1, folded w2_def]
  have one2: "like_rows (tbl_post_likes (db w2)) (prof_id u) pid \<le> 1"
    using s1(1) by simp
  note s2 = MainLayout_toggle_step [OF cfg nf s1(2) s1(3) s1(4) one2, folded w3_def]
  have "liked (tbl_post_likes (db w2)) (prof_id u) pid
          = (\<not> liked (tbl_post_likes (db w1)) (prof_id u) pid)"
    using s1(1) one1 by (auto simp: liked_like_rows)
  moreover have "liked (tbl_post_likes (db w3)) (prof_id u) pid
          = liked (tbl_post_likes (db w1)) (prof_id u) pid"
    using s1(1) s2(1) one1 by (auto simp: liked_like_rows)
  ultimately show "let w1 = MainLayout_loadPosts e u currentSection w;
           w2 = snd (MainLayout_handleLike e u currentSection pid w1);
           w3 = snd (MainLayout_handleLike e u currentSection pid w2)
       in liked (tbl_post_likes (db w2)) (prof_id u) pid
            = (\<not> liked (tbl_post_likes (db w1)) (prof_id u) pid)
        \<and> liked (tbl_post_likes (db w3)) (prof_id u) pid
            = liked (tbl_post_likes (db w1)) (prof_id u) pid"
    by (simp add: Let_def w1_def w2_def w3_def)
next
  show "let e' = e\<lparr>configured := False\<rparr>
      in db (snd (PostFeed_handleLike e' u section pid w)) = db w
       \<and> map likes (posts (snd (PostFeed_handleLike e' u section pid w))) = map likes (posts w)
       \<and> db (snd (MainLayout_handleLike e' u currentSection pid w)) = db w
       \<and> map likes (posts (snd (MainLayout_handleLike e' u currentSection pid w)))
           = map likes (posts w)"
    by (simp add: PostFeed_handleLike_def MainLayout_handleLike_def likes_toggle_demo comp_def)
qed

theorem toggle_twice_restores_membership_witness:
  "configured live_env \<and> fault live_env = (\<lambda>c. None)
   \<and> like_rows (tbl_likes (db (initial_world sample_db))) ''u1'' ''p2'' \<le> 1
   \<and> (\<exists>p\<in>set (tbl_posts (db (initial_world sample_db))).
         post_id p = ''p2'' \<and> matches (section_filters (Some ''anonymous'')) p)
   \<and> liked (tbl_likes sample_db) ''u1'' ''p2''
   \<and> \<not> liked (tbl_likes (db (snd (PostFeed_handleLike live_env (sample_profile ''u1'' ''alice'')
              (Some ''anonymous'') ''p2''
              (PostFeed_loadPosts live_env (Some ''anonymous'') (initial_world sample_db))))))
          ''u1'' ''p2''
   \<and> liked (tbl_likes (db (snd (PostFeed_handleLike live_env (sample_profile ''u1'' ''alice'')
              (Some ''anonymous'') ''p2''
              (snd (PostFeed_handleLike live_env (sample_profile ''u1'' ''alice'')
                 (Some ''anonymous'') ''p2''
                 (PostFeed_loadPosts live_env (Some ''anonymous'') (initial_world sample_db))))))))
          ''u1'' ''p2''"
proof -
  have c: "configured live_env" and f: "fault live_env = (\<lambda>c. None)"
    by (simp_all add: live_env_def demo_env_def)
  have one: "like_rows (tbl_likes (db (initial_world sample_db))) ''u1'' ''p2'' \<le> 1"
    by (simp add: like_rows_def initial_world_def sample_db_def)
  have part: "\<exists>p\<in>set (tbl_posts (db (initial_world sample_db))).
         post_id p = ''p2'' \<and> matches (section_filters (Some ''anonymous'')) p"
    by (simp add: initial_world_def sample_db_def sample_row_def matches_def section_filters_def
          falsy_def)
  have l: "liked (tbl_likes sample_db) ''u1'' ''p2''"
    by (simp add: liked_def sample_db_def)
  from toggle_twice_restores_membership
         [OF c f, of "initial_world sample_db" "sample_profile ''u1'' ''alice''" "''p2''"
            "Some ''anonymous''" "''anonymous''"] one part l
  have "\<not> liked (tbl_likes (db (snd (PostFeed_handleLike live_env (sample_profile ''u1'' ''alice'')
              (Some ''anonymous'') ''p2''
              (PostFeed_loadPosts live_env (Some ''anonymous'') (initial_world sample_db))))))
          ''u1'' ''p2''
   \<and> liked (tbl_likes (db (snd (PostFeed_handleLike live_env (sample_profile ''u1'' ''alice'')
              (Some ''anonymous'') ''p2''
              (snd (PostFeed_handleLike live_env (sample_profile ''u1'' ''alice'')
                 (Some ''anonymous'') ''p2''
                 (PostFeed_loadPosts live_env (Some ''anonymous'') (initial_world sample_db))))))))
          ''u1'' ''p2''"
    by (simp add: Let_def PostFeed_loadPosts_db sample_profile_def initial_world_def)
  with c f one part l show ?thesis
    by blast
qed

text \<open>C5 as stated fails in both modes. In demo mode the cached like list never changes,
  so both toggles add one and the second does not undo the first: the count goes from 5 to
  7. In backend mode the toggle decides from local state: starting from a local list that
  still shows a like the table no longer holds, the first toggle deletes nothing and the
  second inserts, so the pair ends liked although it started not liked.\<close>

theorem toggle_twice_not_reversed:
  "map post_count
     (posts (snd (PostFeed_handleLike demo_env (sample_profile ''u1'' ''alice'') None ''1''
        (snd (PostFeed_handleLike demo_env (sample_profile ''u1'' ''alice'') None ''1''
           (PostFeed_loadPosts demo_env None (initial_world sample_db)))))))
     = [Some \<lparr>n_likes = Some 7, n_comments = Some 2\<rparr>]
   \<and> \<not> liked (tbl_likes (db stale_world)) ''u1'' ''p1''
   \<and> liked (tbl_likes (db (snd (PostFeed_handleLike live_env (sample_profile ''u1'' ''alice'')
              (Some ''public'') ''p1''
              (snd (PostFeed_handleLike live_env (sample_profile ''u1'' ''alice'')
                 (Some ''public'') ''p1'' stale_world))))))
          ''u1'' ''p1''"
proof -
  have a: "map post_count
     (posts (snd (PostFeed_handleLike demo_env (sample_profile ''u1'' ''alice'') None ''1''
        (snd (PostFeed_handleLike demo_env (sample_profile ''u1'' ''alice'') None ''1''
           (PostFeed_loadPosts demo_env None (initial_world sample_db)))))))
     = [Some \<lparr>n_likes = Some 7, n_comments = Some 2\<rparr>]"
    by (simp add: PostFeed_handleLike_def PostFeed_loadPosts_def PostFeed_loadPosts_try_def
          demo_env_def falsy_def demoPostsData_def toggle_demo_def or0_def)
  have b: "\<not> liked (tbl_likes (db stale_world)) ''u1'' ''p1''"
    by (simp add: liked_def stale_world_def sample_defs)
  have c: "liked (tbl_likes (db (snd (PostFeed_handleLike live_env (sample_profile ''u1'' ''alice'')
              (Some ''public'') ''p1''
              (snd (PostFeed_handleLike live_env (sample_profile ''u1'' ''alice'')
                 (Some ''public'') ''p1'' stale_world))))))
          ''u1'' ''p1''"
    by (simp add: PostFeed_handleLike_def existingLike_def mutate_def delete_by_id_def
          insert_like_row_def liked_def load_defs query_defs sample_defs stale_world_def)
  from a b c show ?thesis
    by blast
qed






text \<open>
  C8. A second load over the same backend, with the same section and the same failures,
  stores the same posts as the first. For \<open>PostFeed\<close> the two lists are equal. For
  \<open>MainLayout\<close> the demo posts are stamped with the clock at each load, so the second load
  may run at another time \<open>t\<close>: the identities, their order and the counts are the same.
  A load does not change the backend.
\<close>

theorem load_idempotent:
  "posts (PostFeed_loadPosts e section (PostFeed_loadPosts e section w))
     = posts (PostFeed_loadPosts e section w)
   \<and> db (PostFeed_loadPosts e section w) = db w
   \<and> map identity_and_counts
        (posts (MainLayout_loadPosts (e\<lparr>clock := t\<rparr>) profile currentSection
                  (MainLayout_loadPosts e profile currentSection w)))
     = map identity_and_counts (posts (MainLayout_loadPosts e profile currentSection w))
   \<and> db (MainLayout_loadPosts e profile currentSection w) = db w"
proof -
  have 1: "posts (PostFeed_loadPosts e section (PostFeed_loadPosts e section w))
     = posts (PostFeed_loadPosts e section w)"
    by (simp add: PostFeed_loadPosts_posts PostFeed_loadPosts_db split: option.split)
  have 2: "map identity_and_counts
        (posts (MainLayout_loadPosts (e\<lparr>clock := t\<rparr>) profile currentSection
                  (MainLayout_loadPosts e profile currentSection w)))
     = map identity_and_counts (posts (MainLayout_loadPosts e profile currentSection w))"
    using MainLayout_outcome_clock [of t e profile currentSection "db w"]
    by (cases "MainLayout_outcome e profile currentSection (db w)";
        cases "MainLayout_outcome (e\<lparr>clock := t\<rparr>) profile currentSection (db w)")
       (simp_all add: MainLayout_loadPosts_posts MainLayout_loadPosts_db)
  from 1 2 show ?thesis
    by (simp add: PostFeed_loadPosts_db MainLayout_loadPosts_db)
qed

text \<open>
  C9. In demo mode the like toggle of either component throws nothing and changes only the
  posts list, and there only the posts whose identity matches: each becomes the same post
  with \<open>_count.likes\<close> moved by \<open>-1\<close> when the user's identity is in its cached like list and
  by \<open>+1\<close> otherwise. The backend tables and the record of backend calls are as before.
\<close>

theorem demo_like_toggle_frame:
  assumes "\<not> configured e"
  shows "PostFeed_handleLike e u section pid w =
           (None, w\<lparr>posts := map (\<lambda>p. if post_id p = pid
                                        then likes_count_adjusted (prof_id u) p else p) (posts w)\<rparr>)
       \<and> MainLayout_handleLike e u currentSection pid w =
           (None, w\<lparr>posts := map (\<lambda>p. if post_id p = pid
                                        then likes_count_adjusted (prof_id u) p else p) (posts w)\<rparr>)"
  using assms
  by (simp add: PostFeed_handleLike_def MainLayout_handleLike_def toggle_demo_adjusted)

theorem demo_like_toggle_frame_witness:
  "\<not> configured demo_env
   \<and> map post_count (posts (snd (PostFeed_handleLike demo_env (sample_profile ''u1'' ''alice'') None ''1''
         ((initial_world sample_db)\<lparr>posts := demoPostsData 0\<rparr>))))
       = [Some \<lparr>n_likes = Some 6, n_comments = Some 2\<rparr>]
   \<and> db (snd (PostFeed_handleLike demo_env (sample_profile ''u1'' ''alice'') None ''1''
         ((initial_world sample_db)\<lparr>posts := demoPostsData 0\<rparr>))) = sample_db
   \<and> trace (snd (PostFeed_handleLike demo_env (sample_profile ''u1'' ''alice'') None ''1''
         ((initial_world sample_db)\<lparr>posts := demoPostsData 0\<rparr>))) = []"
  using demo_like_toggle_frame [of demo_env "sample_profile ''u1'' ''alice''" None "''1''"
      "(initial_world sample_db)\<lparr>posts := demoPostsData 0\<rparr>" "''public''"]
  by (simp add: demo_env_def likes_count_adjusted_def demoPostsData_def initial_world_def or0_def)

text \<open>
  C10. A load of either component ends with the loading flag false, whatever path it took:
  demo mode, a query error, no matching post, a successful assembly, or a rejection caught
  by the handler. The load is a total function: its loops run over the finite lists the
  backend returned.
\<close>

theorem loadPosts_ends_not_loading:
  "\<not> loading (PostFeed_loadPosts e section w)
   \<and> \<not> loading (MainLayout_loadPosts e profile currentSection w)"
  by (simp add: PostFeed_loadPosts_def MainLayout_loadPosts_def split: prod.split option.split)

end
